theory Spec2Isabelle
  imports Complex_Main "HOL-Library.Sublist"
begin

section \<open>Track selection engine: conventions\<close>

text \<open>
  The development embeds \<^verbatim>\<open>track_selector/models.py\<close>, \<^verbatim>\<open>track_selector/library.py\<close> and
  \<^verbatim>\<open>track_selector/journey_planner.py\<close>. Python \<^verbatim>\<open>float\<close> values (tempo, durations,
  cue times, scores) are read as exact real numbers and Python \<^verbatim>\<open>int\<close> values as
  unbounded integers; rounding of IEEE doubles is outside the model. Python object
  references to tracks are read as the record values they point to.
\<close>

datatype py_error = ValueError string | ZeroDivisionError | IndexError

section \<open>Energy curve generator\<close>

text \<open>Python's \<^verbatim>\<open>int(x)\<close> on a float: truncation towards zero.\<close>

definition py_int :: "real \<Rightarrow> int" where
  "py_int x = (if 0 \<le> x then \<lfloor>x\<rfloor> else \<lceil>x\<rceil>)"

text \<open>Python's \<^verbatim>\<open>range(n)\<close> for an integer \<^verbatim>\<open>n\<close> (empty when \<^verbatim>\<open>n \<le> 0\<close>).\<close>

definition py_range :: "int \<Rightarrow> nat list" where
  "py_range n = [0..<nat n]"

text \<open>Python's slice \<^verbatim>\<open>xs[:n]\<close>; a negative \<^verbatim>\<open>n\<close> counts from the end.\<close>

definition py_slice_to :: "'a list \<Rightarrow> int \<Rightarrow> 'a list" where
  "py_slice_to xs n = (if 0 \<le> n then take (nat n) xs else take (nat (int (length xs) + n)) xs)"

text \<open>
  The second loop of the \<^verbatim>\<open>gradual_build\<close> branch:
  \<^verbatim>\<open>for i in range(third): curve.append(4 + int((i / third) * 3))\<close>.
  The true division raises on a zero divisor.
\<close>

fun gradual_build_loop :: "int \<Rightarrow> nat list \<Rightarrow> int list \<Rightarrow> py_error + int list" where
  "gradual_build_loop third [] curve = Inr curve"
| "gradual_build_loop third (i # rest) curve =
     (if third = 0 then Inl ZeroDivisionError
      else gradual_build_loop third rest
             (curve @ [4 + py_int ((of_nat i / of_int third) * 3)]))"

text \<open>
  The third loop of the \<^verbatim>\<open>gradual_build\<close> branch. The range is fixed when the loop
  starts, while the divisor \<^verbatim>\<open>num_tracks - len(curve)\<close> is read again in every
  iteration, after the previous append.
\<close>

fun gradual_descent_loop :: "int \<Rightarrow> nat list \<Rightarrow> int list \<Rightarrow> py_error + int list" where
  "gradual_descent_loop num_tracks [] curve = Inr curve"
| "gradual_descent_loop num_tracks (i # rest) curve =
     (if num_tracks - int (length curve) = 0 then Inl ZeroDivisionError
      else gradual_descent_loop num_tracks rest
             (curve @ [max (7 - py_int ((of_nat i / of_int (num_tracks - int (length curve))) * 2)) 5]))"

text \<open>The two loops of the \<^verbatim>\<open>peak_and_descent\<close> branch.\<close>

fun peak_build_loop :: "int \<Rightarrow> nat list \<Rightarrow> int list \<Rightarrow> py_error + int list" where
  "peak_build_loop peak_at [] curve = Inr curve"
| "peak_build_loop peak_at (i # rest) curve =
     (if peak_at = 0 then Inl ZeroDivisionError
      else peak_build_loop peak_at rest
             (curve @ [2 + py_int ((of_nat i / of_int peak_at) * 6)]))"

fun peak_descent_loop :: "int \<Rightarrow> int \<Rightarrow> nat list \<Rightarrow> int list \<Rightarrow> py_error + int list" where
  "peak_descent_loop num_tracks peak_at [] curve = Inr curve"
| "peak_descent_loop num_tracks peak_at (i # rest) curve =
     (if num_tracks - peak_at = 0 then Inl ZeroDivisionError
      else peak_descent_loop num_tracks peak_at rest
             (curve @ [max (8 - py_int ((of_nat i / of_int (num_tracks - peak_at)) * 5)) 3]))"

definition generate_energy_curve :: "int \<Rightarrow> string \<Rightarrow> py_error + int list" where
  "generate_energy_curve num_tracks progression =
     (if progression = ''gradual_build'' then
        (let third = num_tracks div 3;
             curve = map (\<lambda>i. 2 + int i mod 3) (py_range third)
         in case gradual_build_loop third (py_range third) curve of
              Inl e \<Rightarrow> Inl e
            | Inr curve \<Rightarrow>
                (case gradual_descent_loop num_tracks
                        (py_range (num_tracks - int (length curve))) curve of
                   Inl e \<Rightarrow> Inl e
                 | Inr curve \<Rightarrow> Inr (py_slice_to curve num_tracks)))
      else if progression = ''peak_and_descent'' then
        (let peak_at = py_int (of_int num_tracks * (65 / 100))
         in case peak_build_loop peak_at (py_range peak_at) [] of
              Inl e \<Rightarrow> Inl e
            | Inr curve \<Rightarrow>
                (case peak_descent_loop num_tracks peak_at
                        (py_range (num_tracks - peak_at)) curve of
                   Inl e \<Rightarrow> Inl e
                 | Inr curve \<Rightarrow> Inr (py_slice_to curve num_tracks)))
      else if progression = ''steady'' then
        Inr (map (\<lambda>i. 5 + int i mod 2) (py_range num_tracks))
      else Inr (replicate (nat num_tracks) 5))"

section \<open>Data model\<close>

datatype TextureType =
    ATMOSPHERIC | PERCUSSIVE | VOCAL | MELODIC | MINIMAL
  | LAYERED | DUB | TRIBAL | HYPNOTIC | ORGANIC

datatype JourneyPosition =
    OPENER | WARM_UP | BUILDER | CORE | PEAK | BRIDGE | WIND_DOWN | CLOSER

datatype MusicalKey =
    A_MINOR | E_MINOR | B_MINOR | F_SHARP_MINOR | D_FLAT_MINOR | A_FLAT_MINOR
  | E_FLAT_MINOR | B_FLAT_MINOR | F_MINOR | C_MINOR | G_MINOR | D_MINOR
  | C_MAJOR | G_MAJOR | D_MAJOR | A_MAJOR | E_MAJOR | B_MAJOR
  | F_SHARP_MAJOR | D_FLAT_MAJOR | A_FLAT_MAJOR | E_FLAT_MAJOR | B_FLAT_MAJOR | F_MAJOR

text \<open>The \<^verbatim>\<open>value\<close> of each \<^verbatim>\<open>MusicalKey\<close> member (Camelot notation).\<close>

fun key_value :: "MusicalKey \<Rightarrow> string" where
  "key_value A_MINOR = ''1A''"
| "key_value E_MINOR = ''2A''"
| "key_value B_MINOR = ''3A''"
| "key_value F_SHARP_MINOR = ''4A''"
| "key_value D_FLAT_MINOR = ''5A''"
| "key_value A_FLAT_MINOR = ''6A''"
| "key_value E_FLAT_MINOR = ''7A''"
| "key_value B_FLAT_MINOR = ''8A''"
| "key_value F_MINOR = ''9A''"
| "key_value C_MINOR = ''10A''"
| "key_value G_MINOR = ''11A''"
| "key_value D_MINOR = ''12A''"
| "key_value C_MAJOR = ''1B''"
| "key_value G_MAJOR = ''2B''"
| "key_value D_MAJOR = ''3B''"
| "key_value A_MAJOR = ''4B''"
| "key_value E_MAJOR = ''5B''"
| "key_value B_MAJOR = ''6B''"
| "key_value F_SHARP_MAJOR = ''7B''"
| "key_value D_FLAT_MAJOR = ''8B''"
| "key_value A_FLAT_MAJOR = ''9B''"
| "key_value E_FLAT_MAJOR = ''10B''"
| "key_value B_FLAT_MAJOR = ''11B''"
| "key_value F_MAJOR = ''12B''"

text \<open>
  The dataclasses of \<^verbatim>\<open>models.py\<close>. A \<^verbatim>\<open>Path\<close> is read as its string and compared by
  value. Where two classes share a field name, or Isabelle reserves it, the field
  carries a prefix: \<^verbatim>\<open>CuePoint\<close> fields \<open>cue_\<close>, \<^verbatim>\<open>Playlist\<close> fields \<open>pl_\<close>,
  \<^verbatim>\<open>JourneyArc.name\<close> as \<open>arc_name\<close>, \<^verbatim>\<open>Transition.blend_duration\<close> and
  \<^verbatim>\<open>Transition.notes\<close> as \<open>tr_blend_duration\<close> and \<open>tr_notes\<close>,
  \<^verbatim>\<open>TrackMetadata.notes\<close> as \<open>track_notes\<close>.
\<close>

record CuePoint =
  cue_time :: real
  cue_label :: string
  cue_color :: "string option"
  cue_confidence :: real

record TrackMetadata =
  file_path :: string
  title :: string
  artist :: string
  bpm :: real
  key :: "MusicalKey option"
  duration :: real
  energy_level :: int
  textures :: "TextureType list"
  journey_position :: "JourneyPosition option"
  label :: "string option"
  genre :: "string list"
  intro_start :: "real option"
  intro_end :: "real option"
  outro_start :: "real option"
  outro_end :: "real option"
  cue_points :: "CuePoint list"
  num_beats :: "int option"
  downbeats :: "real list"
  year :: "int option"
  tags :: "string list"
  track_notes :: string

record JourneyArc =
  arc_name :: string
  description :: string
  duration_minutes :: int
  key_center :: "MusicalKey option"
  bpm_range :: "real \<times> real"
  energy_curve :: "int list"
  num_tracks :: int
  required_textures :: "TextureType list"
  preferred_labels :: "string list"
  blend_duration :: int

record Transition =
  track_a :: TrackMetadata
  track_b :: TrackMetadata
  start_time_a :: real
  start_time_b :: real
  tr_blend_duration :: int
  bpm_compatible :: bool
  key_compatible :: bool
  energy_compatible :: bool
  texture_compatible :: bool
  strategy :: string
  tr_notes :: string

record Playlist =
  pl_name :: string
  pl_journey_arc :: JourneyArc
  pl_tracks :: "TrackMetadata list"
  pl_transitions :: "Transition list"
  pl_total_duration :: real
  pl_created_at :: "string option"

text \<open>
  The constructor call \<^verbatim>\<open>TrackMetadata(file_path, title, artist, bpm)\<close> with every
  other field at its dataclass default.
\<close>

definition new_track :: "string \<Rightarrow> string \<Rightarrow> string \<Rightarrow> real \<Rightarrow> TrackMetadata" where
  "new_track path ttl art tempo =
     \<lparr>file_path = path, title = ttl, artist = art, bpm = tempo, key = None, duration = 0,
      energy_level = 5, textures = [], journey_position = None, label = None, genre = [],
      intro_start = None, intro_end = None, outro_start = None, outro_end = None,
      cue_points = [], num_beats = None, downbeats = [], year = None, tags = [],
      track_notes = []\<rparr>"

section \<open>Track library\<close>

record TrackLibrary =
  library_path :: "string option"
  tracks :: "TrackMetadata list"
  tracks_by_key :: "MusicalKey \<rightharpoonup> TrackMetadata list"
  tracks_by_bpm :: "int \<rightharpoonup> TrackMetadata list"

text \<open>
  \<^verbatim>\<open>TrackLibrary.add_track\<close>: appends to the primary list and to the two index
  entries; a missing index entry is created empty first.
\<close>

definition add_track :: "TrackMetadata \<Rightarrow> TrackLibrary \<Rightarrow> TrackLibrary" where
  "add_track track lib =
     (let lib1 = lib\<lparr>tracks := tracks lib @ [track]\<rparr>;
          lib2 = (case key track of
                    None \<Rightarrow> lib1
                  | Some k \<Rightarrow>
                      lib1\<lparr>tracks_by_key := (tracks_by_key lib1)
                              (k \<mapsto> (case tracks_by_key lib1 k of None \<Rightarrow> [] | Some ts \<Rightarrow> ts) @ [track])\<rparr>);
          bpm_int = py_int (bpm track)
      in lib2\<lparr>tracks_by_bpm := (tracks_by_bpm lib2)
               (bpm_int \<mapsto> (case tracks_by_bpm lib2 bpm_int of None \<Rightarrow> [] | Some ts \<Rightarrow> ts) @ [track])\<rparr>)"

definition find_tracks_by_bpm_range :: "TrackLibrary \<Rightarrow> real \<Rightarrow> real \<Rightarrow> TrackMetadata list" where
  "find_tracks_by_bpm_range lib min_bpm max_bpm =
     filter (\<lambda>t. min_bpm \<le> bpm t \<and> bpm t \<le> max_bpm) (tracks lib)"

subsection \<open>Harmonic compatibility\<close>

text \<open>
  \<^verbatim>\<open>int(key.value[:-1])\<close> and \<^verbatim>\<open>key.value[-1]\<close>: the Camelot number and letter.
  Every \<^verbatim>\<open>value\<close> of the enumeration is a decimal number followed by one letter,
  so the conversion never raises.
\<close>

definition py_int_of_digits :: "string \<Rightarrow> int" where
  "py_int_of_digits ds = foldl (\<lambda>acc c. 10 * acc + (int (of_char c) - 48)) 0 ds"

definition camelot_number :: "MusicalKey \<Rightarrow> int" where
  "camelot_number k = py_int_of_digits (butlast (key_value k))"

definition camelot_letter :: "MusicalKey \<Rightarrow> char" where
  "camelot_letter k = last (key_value k)"

definition are_keys_compatible :: "MusicalKey \<Rightarrow> MusicalKey \<Rightarrow> bool" where
  "are_keys_compatible key1 key2 =
     (if key1 = key2 then True
      else
        (let num1 = camelot_number key1; letter1 = camelot_letter key1;
             num2 = camelot_number key2; letter2 = camelot_letter key2
         in if num1 = num2 then True
            else if letter1 = letter2 then
              (let diff = \<bar>num1 - num2\<bar> in diff = 1 \<or> diff = 11)
            else False))"

subsection \<open>Tempo compatibility\<close>

text \<open>
  The three disjuncts of \<^verbatim>\<open>bpm_ok\<close> in \<^verbatim>\<open>get_compatible_tracks\<close>, named after the
  ratio each one is centred on: \<^verbatim>\<open>abs(bpm_ratio - 1.0) <= bpm_tolerance / 100.0\<close>,
  \<^verbatim>\<open>abs(bpm_ratio - 2.0) <= ...\<close> and \<^verbatim>\<open>abs(bpm_ratio - 0.5) <= ...\<close>.
\<close>

definition band_1_1 :: "real \<Rightarrow> real \<Rightarrow> bool" where
  "band_1_1 bpm_ratio bpm_tolerance = (\<bar>bpm_ratio - 1\<bar> \<le> bpm_tolerance / 100)"

definition band_2_1 :: "real \<Rightarrow> real \<Rightarrow> bool" where
  "band_2_1 bpm_ratio bpm_tolerance = (\<bar>bpm_ratio - 2\<bar> \<le> bpm_tolerance / 100)"

definition band_1_2 :: "real \<Rightarrow> real \<Rightarrow> bool" where
  "band_1_2 bpm_ratio bpm_tolerance = (\<bar>bpm_ratio - 1 / 2\<bar> \<le> bpm_tolerance / 100)"

definition bpm_ok :: "real \<Rightarrow> real \<Rightarrow> bool" where
  "bpm_ok bpm_ratio bpm_tolerance =
     (band_1_1 bpm_ratio bpm_tolerance \<or> band_2_1 bpm_ratio bpm_tolerance
      \<or> band_1_2 bpm_ratio bpm_tolerance)"

text \<open>
  The loop of \<^verbatim>\<open>get_compatible_tracks\<close> over \<^verbatim>\<open>self.tracks\<close>. A track equal to the
  reference (dataclass equality: all fields) is skipped before the division; the
  division \<^verbatim>\<open>track.bpm / reference_track.bpm\<close> raises when the reference tempo is 0.
\<close>

fun compatible_loop ::
  "TrackMetadata \<Rightarrow> real \<Rightarrow> bool \<Rightarrow> TrackMetadata list \<Rightarrow> TrackMetadata list
     \<Rightarrow> py_error + TrackMetadata list" where
  "compatible_loop reference_track bpm_tolerance key_compatible_only [] compatible = Inr compatible"
| "compatible_loop reference_track bpm_tolerance key_compatible_only (track # rest) compatible =
     (if track = reference_track then
        compatible_loop reference_track bpm_tolerance key_compatible_only rest compatible
      else if bpm reference_track = 0 then Inl ZeroDivisionError
      else if \<not> bpm_ok (bpm track / bpm reference_track) bpm_tolerance then
        compatible_loop reference_track bpm_tolerance key_compatible_only rest compatible
      else if key_compatible_only \<and>
              (case (key reference_track, key track) of
                 (Some rk, Some tk) \<Rightarrow> \<not> are_keys_compatible rk tk
               | _ \<Rightarrow> False) then
        compatible_loop reference_track bpm_tolerance key_compatible_only rest compatible
      else
        compatible_loop reference_track bpm_tolerance key_compatible_only rest (compatible @ [track]))"

definition get_compatible_tracks ::
  "TrackLibrary \<Rightarrow> TrackMetadata \<Rightarrow> real \<Rightarrow> bool \<Rightarrow> py_error + TrackMetadata list" where
  "get_compatible_tracks lib reference_track bpm_tolerance key_compatible_only =
     compatible_loop reference_track bpm_tolerance key_compatible_only (tracks lib) []"

section \<open>Journey planner\<close>

text \<open>
  The planner reads \<^verbatim>\<open>self.library\<close> and draws from the global \<^verbatim>\<open>random\<close> module.
  Both are carried in an explicit state. The random source is a supply of natural
  numbers: \<^verbatim>\<open>random.choice(xs)\<close> takes the next number \<open>r\<close> and returns
  \<open>xs ! (r mod length xs)\<close>; an exhausted supply yields index 0. Every finite run of
  choices is produced by some supply.
\<close>

record PlannerState =
  library :: TrackLibrary
  random_state :: "nat list"

definition random_choice :: "'a list \<Rightarrow> PlannerState \<Rightarrow> (py_error + 'a) \<times> PlannerState" where
  "random_choice xs s =
     (case xs of
        [] \<Rightarrow> (Inl IndexError, s)
      | x # _ \<Rightarrow>
          (case random_state s of
             [] \<Rightarrow> (Inr x, s)
           | r # rs \<Rightarrow> (Inr (xs ! (r mod length xs)), s\<lparr>random_state := rs\<rparr>)))"

text \<open>Python's \<^verbatim>\<open>sub in s\<close> on strings.\<close>

fun str_contains :: "string \<Rightarrow> string \<Rightarrow> bool" where
  "str_contains [] sub = (sub = [])"
| "str_contains (c # cs) sub = (prefix sub (c # cs) \<or> str_contains cs sub)"

text \<open>\<^verbatim>\<open>t.label and any(lbl in t.label for lbl in preferred_labels)\<close>.\<close>

definition matches_preferred_label :: "string list \<Rightarrow> TrackMetadata \<Rightarrow> bool" where
  "matches_preferred_label labels t =
     (case label t of
        None \<Rightarrow> False
      | Some l \<Rightarrow> l \<noteq> [] \<and> list_ex (\<lambda>lbl. str_contains l lbl) labels)"

text \<open>\<^verbatim>\<open>t.key and are_keys_compatible(...)\<close> with the track's key in second or first place.\<close>

definition key_compatible_with :: "MusicalKey \<Rightarrow> TrackMetadata \<Rightarrow> bool" where
  "key_compatible_with k t = (case key t of None \<Rightarrow> False | Some tk \<Rightarrow> are_keys_compatible k tk)"

definition key_compatible_to :: "TrackMetadata \<Rightarrow> MusicalKey \<Rightarrow> bool" where
  "key_compatible_to t k = (case key t of None \<Rightarrow> False | Some tk \<Rightarrow> are_keys_compatible tk k)"

subsection \<open>Candidate scorer\<close>

text \<open>
  The texture term of \<^verbatim>\<open>_score_track_compatibility\<close>:
  \<^verbatim>\<open>if current.textures and candidate.textures:\<close>
  \<^verbatim>\<open>    overlap = set(current.textures) & set(candidate.textures)\<close>
  \<^verbatim>\<open>    if len(overlap) < len(current.textures): score += 10\<close>
\<close>

definition texture_variety_bonus :: "TrackMetadata \<Rightarrow> TrackMetadata \<Rightarrow> real" where
  "texture_variety_bonus current candidate =
     (if textures current \<noteq> [] \<and> textures candidate \<noteq> [] then
        (let overlap = set (textures current) \<inter> set (textures candidate)
         in if card overlap < length (textures current) then 10 else 0)
      else 0)"

definition score_track_compatibility :: "TrackMetadata \<Rightarrow> TrackMetadata \<Rightarrow> int \<Rightarrow> real" where
  "score_track_compatibility current candidate target_energy =
     (let score = 50;
          energy_diff = \<bar>energy_level candidate - target_energy\<bar>;
          score = (if energy_diff = 0 then score + 20 else score - of_int energy_diff * 5);
          bpm_diff = \<bar>bpm current - bpm candidate\<bar>;
          score = (if bpm_diff < 2 then score + 15
                   else if bpm_diff < 4 then score + 10
                   else if bpm_diff < 6 then score + 5
                   else score);
          score = (case (key current, key candidate) of
                     (Some ck, Some dk) \<Rightarrow> if are_keys_compatible ck dk then score + 25 else score
                   | _ \<Rightarrow> score);
          score = score + texture_variety_bonus current candidate;
          score = (if artist current = artist candidate then score - 15 else score)
      in max 0 score)"

subsection \<open>Transitions\<close>

text \<open>Python's \<^verbatim>\<open>str\<close> of an integer, for the f-string of the transition notes.\<close>

fun py_str_nat :: "nat \<Rightarrow> string" where
  "py_str_nat n =
     (if n < 10 then [''0123456789'' ! n]
      else py_str_nat (n div 10) @ [''0123456789'' ! (n mod 10)])"

definition py_str_int :: "int \<Rightarrow> string" where
  "py_str_int i = (if i < 0 then CHR ''-'' # py_str_nat (nat (- i)) else py_str_nat (nat i))"

text \<open>
  \<^verbatim>\<open>_create_transition\<close>. The tests \<^verbatim>\<open>if track_a.outro_start:\<close> and
  \<^verbatim>\<open>if track_b.intro_start\<close> are Python truth tests on an optional float: \<^verbatim>\<open>None\<close>
  and \<^verbatim>\<open>0.0\<close> are both false. The planner passes the arc's integer blend duration.
\<close>

definition create_transition :: "TrackMetadata \<Rightarrow> TrackMetadata \<Rightarrow> int \<Rightarrow> py_error + Transition" where
  "create_transition trk_a trk_b blend =
     (let start_a = (case outro_start trk_a of
                       Some m \<Rightarrow> if m \<noteq> 0 then m else max 0 (duration trk_a - of_int blend)
                     | None \<Rightarrow> max 0 (duration trk_a - of_int blend));
          start_b = (case intro_start trk_b of
                       Some m \<Rightarrow> if m \<noteq> 0 then m else 0
                     | None \<Rightarrow> 0)
      in if bpm trk_b = 0 then Inl ZeroDivisionError
         else
           (let bpm_ratio = bpm trk_a / bpm trk_b;
                bpm_compat = ((94 / 100 \<le> bpm_ratio \<and> bpm_ratio \<le> 106 / 100)
                              \<or> (188 / 100 \<le> bpm_ratio \<and> bpm_ratio \<le> 212 / 100));
                key_compat = (case (key trk_a, key trk_b) of
                                (Some ka, Some kb) \<Rightarrow> are_keys_compatible ka kb
                              | _ \<Rightarrow> True);
                energy_compat = (\<bar>energy_level trk_a - energy_level trk_b\<bar> \<le> 2);
                texture_compat =
                  (if textures trk_a \<noteq> [] \<and> textures trk_b \<noteq> [] then
                     card (set (textures trk_a) \<inter> set (textures trk_b)) > 0
                   else True);
                notes0 = ''Blend from '' @ title trk_a @ '' to '' @ title trk_b @ '' over ''
                           @ py_str_int blend @ ''s'';
                notes1 = (if \<not> bpm_compat then notes0 @ '' | BPM adjustment needed'' else notes0);
                notes2 = (if key_compat then notes1 @ '' | Harmonic mix'' else notes1)
            in Inr \<lparr>track_a = trk_a, track_b = trk_b,
                     start_time_a = start_a, start_time_b = start_b,
                     tr_blend_duration = blend,
                     bpm_compatible = bpm_compat, key_compatible = key_compat,
                     energy_compatible = energy_compat, texture_compatible = texture_compat,
                     strategy = ''extended_blend'', tr_notes = notes2\<rparr>))"

subsection \<open>Opener selection\<close>

text \<open>
  The candidate list of \<^verbatim>\<open>_select_opener\<close> just before the final
  \<^verbatim>\<open>random.choice\<close>. The key filter replaces the list unconditionally; the three
  preferences replace it only when their result is non-empty.
\<close>

definition select_opener_candidates ::
  "TrackLibrary \<Rightarrow> JourneyArc \<Rightarrow> bool \<Rightarrow> bool \<Rightarrow> TrackMetadata list" where
  "select_opener_candidates lib journey_arc strict_key prefer_labels =
     (let target_energy = (case energy_curve journey_arc of [] \<Rightarrow> 2 | e # _ \<Rightarrow> e);
          candidates = find_tracks_by_bpm_range lib
                         (fst (bpm_range journey_arc)) (snd (bpm_range journey_arc));
          candidates = filter (\<lambda>t. \<bar>energy_level t - target_energy\<bar> \<le> 1) candidates;
          candidates = (case key_center journey_arc of
                          Some kc \<Rightarrow>
                            if strict_key then filter (\<lambda>t. key_compatible_to t kc) candidates
                            else candidates
                        | None \<Rightarrow> candidates);
          openers = filter (\<lambda>t. journey_position t = Some OPENER) candidates;
          candidates = (if openers \<noteq> [] then openers else candidates);
          atmospheric = filter (\<lambda>t. ATMOSPHERIC \<in> set (textures t) \<or> MINIMAL \<in> set (textures t))
                          candidates;
          candidates = (if atmospheric \<noteq> [] then atmospheric else candidates);
          candidates =
            (if prefer_labels \<and> preferred_labels journey_arc \<noteq> [] then
               (let label_matches = filter (matches_preferred_label (preferred_labels journey_arc))
                                      candidates
                in if label_matches \<noteq> [] then label_matches else candidates)
             else candidates)
      in candidates)"

definition select_opener ::
  "JourneyArc \<Rightarrow> bool \<Rightarrow> bool \<Rightarrow> PlannerState
     \<Rightarrow> (py_error + TrackMetadata option) \<times> PlannerState" where
  "select_opener journey_arc strict_key prefer_labels s =
     (let candidates = select_opener_candidates (library s) journey_arc strict_key prefer_labels
      in if candidates \<noteq> [] then
           (case random_choice candidates s of
              (Inl e, s') \<Rightarrow> (Inl e, s')
            | (Inr t, s') \<Rightarrow> (Inr (Some t), s'))
         else (Inr None, s))"

subsection \<open>Successor selection\<close>

text \<open>
  The candidate list of \<^verbatim>\<open>_select_next_track\<close> after the three hard filters (not
  already used, energy within 1 of the target, tempo inside the arc's range) applied
  to the result of \<^verbatim>\<open>get_compatible_tracks(current_track, 6.0, strict_key)\<close>.
\<close>

definition successor_candidates ::
  "TrackLibrary \<Rightarrow> TrackMetadata \<Rightarrow> int \<Rightarrow> JourneyArc \<Rightarrow> bool \<Rightarrow> string list
     \<Rightarrow> py_error + TrackMetadata list" where
  "successor_candidates lib current target_energy journey_arc strict_key already_used =
     (case get_compatible_tracks lib current 6 strict_key of
        Inl e \<Rightarrow> Inl e
      | Inr candidates \<Rightarrow>
          (let candidates = filter (\<lambda>t. file_path t \<notin> set already_used) candidates;
               candidates = filter (\<lambda>t. \<bar>energy_level t - target_energy\<bar> \<le> 1) candidates;
               candidates = filter (\<lambda>t. fst (bpm_range journey_arc) \<le> bpm t
                                          \<and> bpm t \<le> snd (bpm_range journey_arc)) candidates
           in Inr candidates))"

text \<open>
  The rest of \<^verbatim>\<open>_select_next_track\<close>: the two preferences, scoring, the stable
  descending sort and the pick among the best three.
\<close>

definition rank_candidates ::
  "TrackMetadata \<Rightarrow> int \<Rightarrow> JourneyArc \<Rightarrow> bool \<Rightarrow> TrackMetadata list
     \<Rightarrow> (TrackMetadata \<times> real) list" where
  "rank_candidates current target_energy journey_arc prefer_labels candidates =
     (let candidates =
            (case key current of
               None \<Rightarrow> candidates
             | Some ck \<Rightarrow>
                 (let key_matches = filter (key_compatible_with ck) candidates
                  in if key_matches \<noteq> [] then key_matches else candidates));
          candidates =
            (if prefer_labels \<and> preferred_labels journey_arc \<noteq> [] then
               (let label_matches = filter (matches_preferred_label (preferred_labels journey_arc))
                                      candidates
                in if label_matches \<noteq> [] then label_matches else candidates)
             else candidates);
          scored_candidates =
            map (\<lambda>track. (track, score_track_compatibility current track target_energy)) candidates
      in sort_key (\<lambda>x. - snd x) scored_candidates)"

definition select_next_track ::
  "TrackMetadata \<Rightarrow> int \<Rightarrow> JourneyArc \<Rightarrow> bool \<Rightarrow> bool \<Rightarrow> string list \<Rightarrow> PlannerState
     \<Rightarrow> (py_error + TrackMetadata option) \<times> PlannerState" where
  "select_next_track current target_energy journey_arc strict_key prefer_labels already_used s =
     (case successor_candidates (library s) current target_energy journey_arc strict_key
             already_used of
        Inl e \<Rightarrow> (Inl e, s)
      | Inr candidates \<Rightarrow>
          if candidates = [] then (Inr None, s)
          else
            (let scored_candidates =
                   rank_candidates current target_energy journey_arc prefer_labels candidates
             in if length scored_candidates \<le> 3 then
                  (case scored_candidates of
                     [] \<Rightarrow> (Inl IndexError, s)
                   | best # _ \<Rightarrow> (Inr (Some (fst best)), s))
                else
                  (case random_choice (map fst (take 3 scored_candidates)) s of
                     (Inl e, s') \<Rightarrow> (Inl e, s')
                   | (Inr t, s') \<Rightarrow> (Inr (Some t), s'))))"

subsection \<open>Playlist generation\<close>

text \<open>The mutable locals of \<^verbatim>\<open>generate_playlist\<close>.\<close>

record LoopState =
  selected_tracks :: "TrackMetadata list"
  transitions :: "Transition list"
  current_track :: TrackMetadata

text \<open>
  The loop \<^verbatim>\<open>for i in range(1, journey_arc.num_tracks)\<close>, over the list of its
  indices. A successor search that returns \<^verbatim>\<open>None\<close> breaks out of the loop (the
  warning it prints is not modelled).
\<close>

fun playlist_loop ::
  "JourneyArc \<Rightarrow> bool \<Rightarrow> bool \<Rightarrow> nat list \<Rightarrow> LoopState \<Rightarrow> PlannerState
     \<Rightarrow> (py_error + LoopState) \<times> PlannerState" where
  "playlist_loop journey_arc strict_key prefer_labels [] st s = (Inr st, s)"
| "playlist_loop journey_arc strict_key prefer_labels (i # rest) st s =
     (let target_energy =
            (if i < length (energy_curve journey_arc) then energy_curve journey_arc ! i else 5)
      in case select_next_track (current_track st) target_energy journey_arc strict_key
                prefer_labels (map file_path (selected_tracks st)) s of
           (Inl e, s') \<Rightarrow> (Inl e, s')
         | (Inr None, s') \<Rightarrow> (Inr st, s')
         | (Inr (Some next_track), s') \<Rightarrow>
             (case create_transition (current_track st) next_track (blend_duration journey_arc) of
                Inl e \<Rightarrow> (Inl e, s')
              | Inr transition \<Rightarrow>
                  playlist_loop journey_arc strict_key prefer_labels rest
                    \<lparr>selected_tracks = selected_tracks st @ [next_track],
                     transitions = transitions st @ [transition],
                     current_track = next_track\<rparr> s'))"

text \<open>\<^verbatim>\<open>Playlist.calculate_duration\<close>, which stores the total on the playlist.\<close>

definition calculate_duration :: "Playlist \<Rightarrow> Playlist" where
  "calculate_duration p =
     (case pl_tracks p of
        [] \<Rightarrow> p
      | first # _ \<Rightarrow>
          p\<lparr>pl_total_duration :=
               foldl (\<lambda>total tr. total + (duration (track_b tr) - of_int (tr_blend_duration tr)))
                 (duration first) (pl_transitions p)\<rparr>)"

text \<open>
  \<^verbatim>\<open>generate_playlist\<close>. The argument \<open>now\<close> stands for
  \<^verbatim>\<open>datetime.now().isoformat()\<close>. The result pairs what the call returns or raises
  with the state the call leaves behind.
\<close>

definition generate_playlist ::
  "JourneyArc \<Rightarrow> bool \<Rightarrow> bool \<Rightarrow> string \<Rightarrow> PlannerState
     \<Rightarrow> (py_error + Playlist) \<times> PlannerState" where
  "generate_playlist journey_arc strict_key prefer_labels now s =
     (case select_opener journey_arc strict_key prefer_labels s of
        (Inl e, s1) \<Rightarrow> (Inl e, s1)
      | (Inr None, s1) \<Rightarrow> (Inl (ValueError ''No suitable opener found in library''), s1)
      | (Inr (Some first_track), s1) \<Rightarrow>
          (case playlist_loop journey_arc strict_key prefer_labels
                  [1..<nat (num_tracks journey_arc)]
                  \<lparr>selected_tracks = [first_track], transitions = [],
                   current_track = first_track\<rparr> s1 of
             (Inl e, s2) \<Rightarrow> (Inl e, s2)
           | (Inr st, s2) \<Rightarrow>
               (Inr (calculate_duration
                       \<lparr>pl_name = arc_name journey_arc, pl_journey_arc = journey_arc,
                        pl_tracks = selected_tracks st, pl_transitions = transitions st,
                        pl_total_duration = 0, pl_created_at = Some now\<rparr>), s2)))"

section \<open>Notions used to state the properties\<close>

text \<open>\<^verbatim>\<open>TrackLibrary()\<close>: the state \<^verbatim>\<open>__init__\<close> leaves when no library file is given.\<close>

definition empty_library :: TrackLibrary where
  "empty_library =
     \<lparr>library_path = None, tracks = [], tracks_by_key = Map.empty, tracks_by_bpm = Map.empty\<rparr>"

text \<open>
  The hard filters of \<^verbatim>\<open>_select_opener\<close>, which replace the candidate list whatever
  their result: tempo inside the arc's range, energy within 1 of the target (the
  curve's first value, or 2 for an empty curve) and, under \<^verbatim>\<open>strict_key\<close> with a key
  centre, a key compatible with the key centre.
\<close>

definition opener_mandatory :: "JourneyArc \<Rightarrow> bool \<Rightarrow> TrackMetadata \<Rightarrow> bool" where
  "opener_mandatory journey_arc strict_key t =
     (fst (bpm_range journey_arc) \<le> bpm t \<and> bpm t \<le> snd (bpm_range journey_arc)
      \<and> \<bar>energy_level t - (case energy_curve journey_arc of [] \<Rightarrow> 2 | e # _ \<Rightarrow> e)\<bar> \<le> 1
      \<and> (case key_center journey_arc of
            Some kc \<Rightarrow> if strict_key then key_compatible_to t kc else True
          | None \<Rightarrow> True))"

text \<open>
  A narrowing step that is skipped when it would leave nothing: the filtered list
  when it is non-empty, the list as it was otherwise.
\<close>

definition prefer_nonempty :: "('a \<Rightarrow> bool) \<Rightarrow> 'a list \<Rightarrow> 'a list" where
  "prefer_nonempty P xs = (if filter P xs \<noteq> [] then filter P xs else xs)"

text \<open>
  The states the loop of \<^verbatim>\<open>generate_playlist\<close> passes through. \<open>loop_reaches arc sk pl s0
  idxs st s\<close> holds when the call started in \<open>s0\<close> stands before the iterations
  \<open>idxs\<close> with locals \<open>st\<close> and state \<open>s\<close>: first after the opener was chosen, then
  after every iteration that appended a track and its transition.
\<close>

inductive loop_reaches ::
  "JourneyArc \<Rightarrow> bool \<Rightarrow> bool \<Rightarrow> PlannerState \<Rightarrow> nat list \<Rightarrow> LoopState \<Rightarrow> PlannerState \<Rightarrow> bool"
  for journey_arc :: JourneyArc and strict_key :: bool and prefer_labels :: bool
    and s0 :: PlannerState where
  after_opener:
    "select_opener journey_arc strict_key prefer_labels s0 = (Inr (Some first_track), s1) \<Longrightarrow>
     loop_reaches journey_arc strict_key prefer_labels s0 [1..<nat (num_tracks journey_arc)]
       \<lparr>selected_tracks = [first_track], transitions = [], current_track = first_track\<rparr> s1"
| after_iteration:
    "loop_reaches journey_arc strict_key prefer_labels s0 (i # rest) st s \<Longrightarrow>
     select_next_track (current_track st)
       (if i < length (energy_curve journey_arc) then energy_curve journey_arc ! i else 5)
       journey_arc strict_key prefer_labels (map file_path (selected_tracks st)) s
       = (Inr (Some next_track), s') \<Longrightarrow>
     create_transition (current_track st) next_track (blend_duration journey_arc) = Inr transition \<Longrightarrow>
     loop_reaches journey_arc strict_key prefer_labels s0 rest
       \<lparr>selected_tracks = selected_tracks st @ [next_track],
        transitions = transitions st @ [transition],
        current_track = next_track\<rparr> s'"

section \<open>A small library and arc for concrete runs\<close>

definition demo_track_a :: TrackMetadata where
  "demo_track_a = (new_track ''a.wav'' ''A'' ''X'' 120)\<lparr>energy_level := 2, duration := 360\<rparr>"

definition demo_track_b :: TrackMetadata where
  "demo_track_b = (new_track ''b.wav'' ''B'' ''Y'' 122)\<lparr>energy_level := 3, duration := 400\<rparr>"

definition demo_track_c :: TrackMetadata where
  "demo_track_c = (new_track ''c.wav'' ''C'' ''Z'' 128)\<lparr>energy_level := 3, duration := 300\<rparr>"

definition demo_library :: TrackLibrary where
  "demo_library = add_track demo_track_c (add_track demo_track_b (add_track demo_track_a empty_library))"

definition demo_arc :: JourneyArc where
  "demo_arc =
     \<lparr>arc_name = ''Deep Space Journey - 12min'',
      description = ''A gradual_build journey through deep space house'',
      duration_minutes = 12, key_center = None, bpm_range = (118, 124),
      energy_curve = [2, 3, 4], num_tracks = 3,
      required_textures = [ATMOSPHERIC, HYPNOTIC, DUB, MINIMAL],
      preferred_labels = [''Lucidflow'', ''Echocord'', ''Styrax'', ''MCDE'', ''Ostgut Ton'', ''Moodmusic''],
      blend_duration = 60\<rparr>"

definition demo_state :: PlannerState where
  "demo_state = \<lparr>library = demo_library, random_state = [0, 0]\<rparr>"

text \<open>The transition the planner creates from \<open>demo_track_a\<close> to \<open>demo_track_b\<close>.\<close>

definition demo_transition :: Transition where
  "demo_transition =
     \<lparr>track_a = demo_track_a, track_b = demo_track_b,
      start_time_a = 300, start_time_b = 0, tr_blend_duration = 60,
      bpm_compatible = True, key_compatible = True,
      energy_compatible = True, texture_compatible = True,
      strategy = ''extended_blend'',
      tr_notes = ''Blend from A to B over 60s | Harmonic mix''\<rparr>"

section \<open>Properties of the energy curve generator\<close>

lemma py_int_bounds: "0 \<le> x \<Longrightarrow> x < of_int k \<Longrightarrow> 0 \<le> py_int x \<and> py_int x < k"
  by (simp add: py_int_def floor_less_iff)

lemma py_int_nonneg: "0 \<le> x \<Longrightarrow> 0 \<le> py_int x"
  by (simp add: py_int_def)

lemma scaled_ratio_trunc:
  assumes "int i < d" and "0 < k"
  shows "0 \<le> py_int ((of_nat i / of_int d) * of_int k) \<and> py_int ((of_nat i / of_int d) * of_int k) < k"
proof -
  define r :: real where "r = of_nat i / of_int d"
  have d: "0 < (of_int d :: real)" using assms(1) by simp
  have "(of_nat i :: real) < of_int d" using assms(1) by (metis of_int_less_iff of_int_of_nat_eq)
  hence r1: "r < 1" using d by (simp add: r_def)
  have r0: "0 \<le> r" using d by (simp add: r_def)
  have k: "0 < (of_int k :: real)" using assms(2) by simp
  have "r * of_int k < 1 * of_int k" using r1 k by (rule mult_strict_right_mono)
  hence up: "r * of_int k < of_int k" by simp
  have lo: "0 \<le> r * of_int k" using r0 k by simp
  show ?thesis using py_int_bounds[OF lo up] by (simp add: r_def)
qed

lemma gradual_build_loop_shape:
  assumes "\<forall>i\<in>set idxs. int i < third"
  shows "\<exists>ys. gradual_build_loop third idxs curve = Inr (curve @ ys) \<and> length ys = length idxs
           \<and> (\<forall>y\<in>set ys. 4 \<le> y \<and> y \<le> 6)"
  using assms
proof (induction idxs arbitrary: curve)
  case Nil
  then show ?case by simp
next
  case (Cons i rest)
  let ?v = "4 + py_int ((of_nat i / of_int third) * 3)"
  from Cons.prems have lt: "int i < third" by simp
  hence nz: "third \<noteq> 0" by auto
  from scaled_ratio_trunc[OF lt, of 3]
  have vb: "4 \<le> ?v \<and> ?v \<le> 6" by simp
  from Cons.prems have "\<forall>i\<in>set rest. int i < third" by simp
  from Cons.IH[OF this, of "curve @ [?v]"] obtain ys where
    ys: "gradual_build_loop third rest (curve @ [?v]) = Inr ((curve @ [?v]) @ ys)"
        "length ys = length rest" "\<forall>y\<in>set ys. 4 \<le> y \<and> y \<le> 6" by blast
  show ?case
  proof (intro exI conjI)
    show "gradual_build_loop third (i # rest) curve = Inr (curve @ (?v # ys))"
      using nz ys(1) by simp
    show "length (?v # ys) = length (i # rest)" using ys(2) by simp
    show "\<forall>y\<in>set (?v # ys). 4 \<le> y \<and> y \<le> 6" using vb ys(3) by simp
  qed
qed

lemma peak_build_loop_shape:
  assumes "\<forall>i\<in>set idxs. int i < peak_at"
  shows "\<exists>ys. peak_build_loop peak_at idxs curve = Inr (curve @ ys) \<and> length ys = length idxs
           \<and> (\<forall>y\<in>set ys. 2 \<le> y \<and> y \<le> 7)"
  using assms
proof (induction idxs arbitrary: curve)
  case Nil
  then show ?case by simp
next
  case (Cons i rest)
  let ?v = "2 + py_int ((of_nat i / of_int peak_at) * 6)"
  from Cons.prems have lt: "int i < peak_at" by simp
  hence nz: "peak_at \<noteq> 0" by auto
  from scaled_ratio_trunc[OF lt, of 6]
  have vb: "2 \<le> ?v \<and> ?v \<le> 7" by simp
  from Cons.prems have "\<forall>i\<in>set rest. int i < peak_at" by simp
  from Cons.IH[OF this, of "curve @ [?v]"] obtain ys where
    ys: "peak_build_loop peak_at rest (curve @ [?v]) = Inr ((curve @ [?v]) @ ys)"
        "length ys = length rest" "\<forall>y\<in>set ys. 2 \<le> y \<and> y \<le> 7" by blast
  show ?case
  proof (intro exI conjI)
    show "peak_build_loop peak_at (i # rest) curve = Inr (curve @ (?v # ys))"
      using nz ys(1) by simp
    show "length (?v # ys) = length (i # rest)" using ys(2) by simp
    show "\<forall>y\<in>set (?v # ys). 2 \<le> y \<and> y \<le> 7" using vb ys(3) by simp
  qed
qed

lemma peak_descent_loop_shape:
  assumes "idxs = [] \<or> peak_at < n"
  shows "\<exists>ys. peak_descent_loop n peak_at idxs curve = Inr (curve @ ys) \<and> length ys = length idxs
           \<and> (\<forall>y\<in>set ys. 3 \<le> y \<and> y \<le> 8)"
  using assms
proof (induction idxs arbitrary: curve)
  case Nil
  then show ?case by simp
next
  case (Cons i rest)
  let ?v = "max (8 - py_int ((of_nat i / of_int (n - peak_at)) * 5)) 3"
  from Cons.prems have lt: "peak_at < n" by simp
  hence nz: "n - peak_at \<noteq> 0" by auto
  have "0 \<le> (of_nat i / of_int (n - peak_at)) * (5::real)" using lt by simp
  from py_int_nonneg[OF this]
  have vb: "3 \<le> ?v \<and> ?v \<le> 8" by simp
  from lt have "rest = [] \<or> peak_at < n" by simp
  from Cons.IH[OF this, of "curve @ [?v]"] obtain ys where
    ys: "peak_descent_loop n peak_at rest (curve @ [?v]) = Inr ((curve @ [?v]) @ ys)"
        "length ys = length rest" "\<forall>y\<in>set ys. 3 \<le> y \<and> y \<le> 8" by blast
  show ?case
  proof (intro exI conjI)
    show "peak_descent_loop n peak_at (i # rest) curve = Inr (curve @ (?v # ys))"
      using nz ys(1) by simp
    show "length (?v # ys) = length (i # rest)" using ys(2) by simp
    show "\<forall>y\<in>set (?v # ys). 3 \<le> y \<and> y \<le> 8" using vb ys(3) by simp
  qed
qed

lemma gradual_descent_loop_shape:
  assumes "int (length curve) + int (length idxs) = n"
  shows "\<exists>ys. gradual_descent_loop n idxs curve = Inr (curve @ ys) \<and> length ys = length idxs
           \<and> (\<forall>y\<in>set ys. 5 \<le> y \<and> y \<le> 7)"
  using assms
proof (induction idxs arbitrary: curve)
  case Nil
  then show ?case by simp
next
  case (Cons i rest)
  let ?d = "n - int (length curve)"
  let ?v = "max (7 - py_int ((of_nat i / of_int ?d) * 2)) 5"
  from Cons.prems have pos: "0 < ?d" by simp
  hence nz: "?d \<noteq> 0" by simp
  have "0 \<le> (of_nat i / of_int ?d) * (2::real)" using pos by simp
  from py_int_nonneg[OF this]
  have vb: "5 \<le> ?v \<and> ?v \<le> 7" by simp
  from Cons.prems have "int (length (curve @ [?v])) + int (length rest) = n" by simp
  from Cons.IH[OF this] obtain ys where
    ys: "gradual_descent_loop n rest (curve @ [?v]) = Inr ((curve @ [?v]) @ ys)"
        "length ys = length rest" "\<forall>y\<in>set ys. 5 \<le> y \<and> y \<le> 7" by blast
  show ?case
  proof (intro exI conjI)
    show "gradual_descent_loop n (i # rest) curve = Inr (curve @ (?v # ys))"
      using nz ys(1) by simp
    show "length (?v # ys) = length (i # rest)" using ys(2) by simp
    show "\<forall>y\<in>set (?v # ys). 5 \<le> y \<and> y \<le> 7" using vb ys(3) by simp
  qed
qed


lemma py_range_set: "i \<in> set (py_range m) \<Longrightarrow> int i < m"
  by (auto simp: py_range_def)

lemma py_range_length: "0 \<le> m \<Longrightarrow> int (length (py_range m)) = m"
  by (simp add: py_range_def)

lemma py_slice_to_all: "int (length xs) = n \<Longrightarrow> py_slice_to xs n = xs"
  by (auto simp: py_slice_to_def)

lemma gradual_build_curve:
  assumes "0 \<le> n"
  shows "\<exists>c. generate_energy_curve n ''gradual_build'' = Inr c \<and> int (length c) = n
           \<and> (\<forall>e\<in>set c. 2 \<le> e \<and> e \<le> 7)
           \<and> (\<forall>e\<in>set (drop (nat (2 * (n div 3))) c). 5 \<le> e)"
proof -
  define third where "third = n div 3"
  define op_seg where "op_seg = map (\<lambda>i. 2 + int i mod 3) (py_range third)"
  have third0: "0 \<le> third" using assms by (simp add: third_def)
  have third_le: "2 * third \<le> n" using assms by (simp add: third_def)
  have len_open: "int (length op_seg) = third"
    using third0 by (simp add: op_seg_def py_range_length)
  have open_rng: "\<forall>e\<in>set op_seg. 2 \<le> e \<and> e \<le> 4"
    by (auto simp: op_seg_def)
  have "\<forall>i\<in>set (py_range third). int i < third" by (simp add: py_range_set)
  from gradual_build_loop_shape[OF this, of op_seg] obtain ys where
    ys: "gradual_build_loop third (py_range third) op_seg = Inr (op_seg @ ys)"
        "length ys = length (py_range third)" "\<forall>y\<in>set ys. 4 \<le> y \<and> y \<le> 6" by blast
  have len_ys: "int (length ys) = third" using ys(2) third0 by (simp add: py_range_length)
  define built where "built = op_seg @ ys"
  have len_built: "int (length built) = 2 * third" using len_open len_ys by (simp add: built_def)
  have "int (length built) + int (length (py_range (n - int (length built)))) = n"
    using len_built third_le by (simp add: py_range_length)
  from gradual_descent_loop_shape[OF this] obtain zs where
    zs: "gradual_descent_loop n (py_range (n - int (length built))) built = Inr (built @ zs)"
        "length zs = length (py_range (n - int (length built)))" "\<forall>y\<in>set zs. 5 \<le> y \<and> y \<le> 7" by blast
  have len_all: "int (length (built @ zs)) = n"
    using zs(2) len_built third_le by (simp add: py_range_length)
  have gen: "generate_energy_curve n ''gradual_build'' = Inr (built @ zs)"
    unfolding generate_energy_curve_def Let_def third_def[symmetric] op_seg_def[symmetric]
    using ys(1) zs(1) py_slice_to_all[OF len_all] by (simp add: built_def[symmetric])
  have rng: "\<forall>e\<in>set (built @ zs). 2 \<le> e \<and> e \<le> 7"
    using open_rng ys(3) zs(3) by (fastforce simp: built_def)
  have "nat (2 * (n div 3)) = length built" using len_built by (simp add: third_def)
  hence floor5: "\<forall>e\<in>set (drop (nat (2 * (n div 3))) (built @ zs)). 5 \<le> e"
    using zs(3) by simp
  show ?thesis using gen len_all rng floor5 by blast
qed

lemma peak_at_bounds:
  assumes "0 \<le> n"
  shows "0 \<le> py_int (of_int n * (65 / 100)) \<and> py_int (of_int n * (65 / 100)) \<le> n
         \<and> (1 \<le> n \<longrightarrow> py_int (of_int n * (65 / 100)) < n)"
proof -
  have x0: "0 \<le> (of_int n :: real) * (65 / 100)" using assms by simp
  have le: "(of_int n :: real) * (65 / 100) \<le> of_int n" using assms by simp
  have "\<lfloor>(of_int n :: real) * (65 / 100)\<rfloor> \<le> \<lfloor>(of_int n :: real)\<rfloor>" using le by (rule floor_mono)
  hence a: "py_int (of_int n * (65 / 100)) \<le> n" using x0 by (simp add: py_int_def)
  have b: "py_int (of_int n * (65 / 100)) < n" if "1 \<le> n"
  proof -
    have "(of_int n :: real) * (65 / 100) < of_int n" using that by simp
    thus ?thesis using x0 by (simp add: py_int_def floor_less_iff)
  qed
  show ?thesis using a b py_int_nonneg[OF x0] by blast
qed

lemma peak_and_descent_curve:
  assumes "0 \<le> n"
  shows "\<exists>c. generate_energy_curve n ''peak_and_descent'' = Inr c \<and> int (length c) = n
           \<and> (\<forall>e\<in>set c. 2 \<le> e \<and> e \<le> 8)
           \<and> (\<forall>e\<in>set (drop (nat (py_int (of_int n * (65 / 100)))) c). 3 \<le> e)"
proof -
  define peak_at where "peak_at = py_int (of_int n * (65 / 100))"
  have pk: "0 \<le> peak_at" "peak_at \<le> n" using peak_at_bounds[OF assms] by (simp_all add: peak_at_def)
  have "\<forall>i\<in>set (py_range peak_at). int i < peak_at" by (simp add: py_range_set)
  from peak_build_loop_shape[OF this, of "[]"] obtain ys where
    ys: "peak_build_loop peak_at (py_range peak_at) [] = Inr ys"
        "length ys = length (py_range peak_at)" "\<forall>y\<in>set ys. 2 \<le> y \<and> y \<le> 7" by auto
  have len_ys: "int (length ys) = peak_at" using ys(2) pk(1) by (simp add: py_range_length)
  have "py_range (n - peak_at) = [] \<or> peak_at < n"
    using pk(2) by (cases "peak_at = n") (simp_all add: py_range_def)
  from peak_descent_loop_shape[OF this, of ys] obtain zs where
    zs: "peak_descent_loop n peak_at (py_range (n - peak_at)) ys = Inr (ys @ zs)"
        "length zs = length (py_range (n - peak_at))" "\<forall>y\<in>set zs. 3 \<le> y \<and> y \<le> 8" by blast
  have len_all: "int (length (ys @ zs)) = n"
    using zs(2) len_ys pk(2) by (simp add: py_range_length)
  have gen: "generate_energy_curve n ''peak_and_descent'' = Inr (ys @ zs)"
    unfolding generate_energy_curve_def Let_def peak_at_def[symmetric]
    using ys(1) zs(1) py_slice_to_all[OF len_all] by simp
  have rng: "\<forall>e\<in>set (ys @ zs). 2 \<le> e \<and> e \<le> 8"
    using ys(3) zs(3) by fastforce
  have "nat peak_at = length ys" using len_ys by simp
  hence floor3: "\<forall>e\<in>set (drop (nat peak_at) (ys @ zs)). 3 \<le> e"
    using zs(3) by simp
  show ?thesis using gen len_all rng floor3 unfolding peak_at_def by blast
qed

lemma steady_curve:
  assumes "0 \<le> n"
  shows "\<exists>c. generate_energy_curve n ''steady'' = Inr c \<and> int (length c) = n
           \<and> (\<forall>e\<in>set c. 5 \<le> e \<and> e \<le> 6)"
  using assms by (auto simp: generate_energy_curve_def py_range_def)

lemma other_curve:
  assumes "0 \<le> n" "progression \<noteq> ''gradual_build''" "progression \<noteq> ''peak_and_descent''"
    "progression \<noteq> ''steady''"
  shows "generate_energy_curve n progression = Inr (replicate (nat n) 5)"
  using assms by (simp add: generate_energy_curve_def)

text \<open>
  Claim C4. For every \<open>n \<ge> 1\<close> tracks and every progression string (the three named
  kinds and any other), the generator returns normally and the curve has exactly
  \<open>n\<close> entries. In the \<^verbatim>\<open>gradual_build\<close> branch the third loop runs
  \<^verbatim>\<open>num_tracks - len(curve)\<close> times with the length read once when the loop starts, so
  the three segments always add up to \<open>n\<close>.
\<close>

theorem generate_energy_curve_length:
  assumes "1 \<le> n"
  shows "\<exists>curve. generate_energy_curve n progression = Inr curve
           \<and> int (length curve) = n"
proof -
  have n0: "0 \<le> n" using assms by simp
  consider "progression = ''gradual_build''" | "progression = ''peak_and_descent''"
    | "progression = ''steady''"
    | "progression \<noteq> ''gradual_build''" "progression \<noteq> ''peak_and_descent''"
      "progression \<noteq> ''steady''" by blast
  then show ?thesis
  proof cases
    case 1 then show ?thesis using gradual_build_curve[OF n0] by blast
  next
    case 2 then show ?thesis using peak_and_descent_curve[OF n0] by blast
  next
    case 3 then show ?thesis using steady_curve[OF n0] by blast
  next
    case 4 then show ?thesis using other_curve[OF n0 4] n0 by simp
  qed
qed

theorem generate_energy_curve_length_witness:
  "(1::int) \<le> 7 \<and> (\<exists>curve. generate_energy_curve 7 ''gradual_build'' = Inr curve \<and> int (length curve) = 7)
   \<and> generate_energy_curve 7 ''gradual_build'' = Inr [2, 3, 4, 5, 7, 6, 5]"
proof -
  have h: "(1::int) \<le> 7" by simp
  have "generate_energy_curve 7 ''gradual_build'' = Inr [2, 3, 4, 5, 7, 6, 5]"
    by (simp add: generate_energy_curve_def py_range_def py_slice_to_def py_int_def upt_rec)
  thus ?thesis using generate_energy_curve_length[OF h, of "''gradual_build''"] by simp
qed

text \<open>
  Claim C6. For the three named progressions and every \<open>n \<ge> 1\<close>, every value of the
  returned curve lies between 1 and 10. The floors are enforced by the code's
  \<^verbatim>\<open>max(energy, 5)\<close> and \<^verbatim>\<open>max(energy, 3)\<close>: every value of the descent segment of
  \<^verbatim>\<open>gradual_build\<close> (from index \<open>2 * (n div 3)\<close> on) is at least 5, and every value of
  the descent segment of \<^verbatim>\<open>peak_and_descent\<close> (from index \<open>int(n * 0.65)\<close> on) is at
  least 3.
\<close>

theorem generate_energy_curve_range:
  assumes "1 \<le> n"
    and "progression \<in> {''gradual_build'', ''peak_and_descent'', ''steady''}"
  shows "\<exists>curve. generate_energy_curve n progression = Inr curve
           \<and> (\<forall>e\<in>set curve. 1 \<le> e \<and> e \<le> 10)
           \<and> (progression = ''gradual_build'' \<longrightarrow>
                (\<forall>e\<in>set (drop (nat (2 * (n div 3))) curve). 5 \<le> e))
           \<and> (progression = ''peak_and_descent'' \<longrightarrow>
                (\<forall>e\<in>set (drop (nat (py_int (of_int n * (65 / 100)))) curve). 3 \<le> e))"
proof -
  have n0: "0 \<le> n" using assms(1) by simp
  consider "progression = ''gradual_build''" | "progression = ''peak_and_descent''"
    | "progression = ''steady''" using assms(2) by blast
  then show ?thesis
  proof cases
    case 1
    from gradual_build_curve[OF n0] obtain c where
      c: "generate_energy_curve n ''gradual_build'' = Inr c"
         "\<forall>e\<in>set c. 2 \<le> e \<and> e \<le> 7"
         "\<forall>e\<in>set (drop (nat (2 * (n div 3))) c). 5 \<le> e" by blast
    have "\<forall>e\<in>set c. 1 \<le> e \<and> e \<le> 10" using c(2) by fastforce
    then show ?thesis using 1 c(1) c(3) by simp
  next
    case 2
    from peak_and_descent_curve[OF n0] obtain c where
      c: "generate_energy_curve n ''peak_and_descent'' = Inr c"
         "\<forall>e\<in>set c. 2 \<le> e \<and> e \<le> 8"
         "\<forall>e\<in>set (drop (nat (py_int (of_int n * (65 / 100)))) c). 3 \<le> e" by blast
    have "\<forall>e\<in>set c. 1 \<le> e \<and> e \<le> 10" using c(2) by fastforce
    then show ?thesis using 2 c(1) c(3) by simp
  next
    case 3
    from steady_curve[OF n0] obtain c where
      c: "generate_energy_curve n ''steady'' = Inr c"
         "\<forall>e\<in>set c. 5 \<le> e \<and> e \<le> 6" by blast
    have "\<forall>e\<in>set c. 1 \<le> e \<and> e \<le> 10" using c(2) by fastforce
    then show ?thesis using 3 c(1) by simp
  qed
qed

theorem generate_energy_curve_range_witness:
  "(1::int) \<le> 7 \<and> ''gradual_build'' \<in> {''gradual_build'', ''peak_and_descent'', ''steady''}
   \<and> generate_energy_curve 7 ''gradual_build'' = Inr [2, 3, 4, 5, 7, 6, 5]
   \<and> list_all (\<lambda>e. 1 \<le> e \<and> e \<le> 10) [2, 3, 4, 5, 7, 6, 5 :: int]
   \<and> list_all (\<lambda>e. 5 \<le> e) (drop (nat (2 * (7 div 3))) [2, 3, 4, 5, 7, 6, 5 :: int])"
proof -
  have h: "(1::int) \<le> 7" by simp
  have m: "''gradual_build'' \<in> {''gradual_build'', ''peak_and_descent'', ''steady''}" by simp
  have ev: "generate_energy_curve 7 ''gradual_build'' = Inr [2, 3, 4, 5, 7, 6, 5]"
    by (simp add: generate_energy_curve_def py_range_def py_slice_to_def py_int_def upt_rec)
  show ?thesis using generate_energy_curve_range[OF h m] ev by simp
qed

section \<open>Facts about the concrete library\<close>

lemma tracks_add_track: "tracks (add_track t lib) = tracks lib @ [t]"
  by (simp add: add_track_def Let_def split: option.splits)

lemma demo_tracks: "tracks demo_library = [demo_track_a, demo_track_b, demo_track_c]"
  by (simp add: demo_library_def tracks_add_track empty_library_def)

lemma demo_fields:
  "bpm demo_track_a = 120" "bpm demo_track_b = 122" "bpm demo_track_c = 128"
  "energy_level demo_track_a = 2" "energy_level demo_track_b = 3" "energy_level demo_track_c = 3"
  "key demo_track_a = None" "key demo_track_b = None" "key demo_track_c = None"
  "file_path demo_track_a = ''a.wav''" "file_path demo_track_b = ''b.wav''" "file_path demo_track_c = ''c.wav''"
  "journey_position demo_track_a = None" "journey_position demo_track_b = None" "journey_position demo_track_c = None"
  "textures demo_track_a = []" "textures demo_track_b = []" "textures demo_track_c = []"
  "label demo_track_a = None" "label demo_track_b = None" "label demo_track_c = None"
  by (simp_all add: demo_track_a_def demo_track_b_def demo_track_c_def new_track_def)

lemma demo_distinct:
  "demo_track_a \<noteq> demo_track_b" "demo_track_b \<noteq> demo_track_a"
  "demo_track_a \<noteq> demo_track_c" "demo_track_c \<noteq> demo_track_a"
  "demo_track_b \<noteq> demo_track_c" "demo_track_c \<noteq> demo_track_b"
  by (simp_all add: demo_track_a_def demo_track_b_def demo_track_c_def new_track_def)

lemma demo_more_fields:
  "title demo_track_a = ''A''" "title demo_track_b = ''B''"
  "artist demo_track_a = ''X''" "artist demo_track_b = ''Y''" "artist demo_track_c = ''Z''"
  "duration demo_track_a = 360" "duration demo_track_b = 400"
  "outro_start demo_track_a = None" "intro_start demo_track_b = None"
  by (simp_all add: demo_track_a_def demo_track_b_def demo_track_c_def new_track_def)

section \<open>Properties of the track library\<close>











subsection \<open>Harmonic compatibility\<close>

text \<open>
  \<^verbatim>\<open>are_keys_compatible\<close> is reflexive and symmetric.
\<close>

theorem are_keys_compatible_refl_sym:
  "are_keys_compatible k k \<and> are_keys_compatible a b = are_keys_compatible b a"
  by (auto simp: are_keys_compatible_def Let_def abs_minus_commute)

text \<open>
  On the Camelot wheel: 8A and 8B are compatible (same number), 8A and 9A are
  compatible (neighbours), 8A and 3A are not, and 12A and 1A are neighbours across the
  wrap-around.
\<close>

theorem are_keys_compatible_examples:
  "are_keys_compatible B_FLAT_MINOR D_FLAT_MAJOR
   \<and> are_keys_compatible B_FLAT_MINOR F_MINOR
   \<and> \<not> are_keys_compatible B_FLAT_MINOR B_MINOR
   \<and> are_keys_compatible D_MINOR A_MINOR"
  by (simp add: are_keys_compatible_def camelot_number_def camelot_letter_def
        py_int_of_digits_def Let_def)

section \<open>Properties of the scorer and of transitions\<close>

lemma overlap_card_less:
  assumes "distinct xs"
  shows "card (set xs \<inter> set ys) < length xs \<longleftrightarrow> \<not> set xs \<subseteq> set ys"
proof -
  have len: "card (set xs) = length xs" using assms by (rule distinct_card)
  show ?thesis
  proof
    assume lt: "card (set xs \<inter> set ys) < length xs"
    show "\<not> set xs \<subseteq> set ys"
    proof
      assume "set xs \<subseteq> set ys"
      hence "set xs \<inter> set ys = set xs" by blast
      with lt len show False by simp
    qed
  next
    assume "\<not> set xs \<subseteq> set ys"
    hence "set xs \<inter> set ys \<subset> set xs" by blast
    hence "card (set xs \<inter> set ys) < card (set xs)" by (simp add: psubset_card_mono)
    thus "card (set xs \<inter> set ys) < length xs" using len by simp
  qed
qed

text \<open>
  Claim C3, amended. With a duplicate-free texture list on the current track, the
  bonus of 10 is awarded exactly when both tracks carry textures and the candidate
  lacks at least one texture of the current track. So it is also awarded when the
  two tracks share no texture at all, and it is withheld when the candidate carries
  every texture of the current track. The term is either 10 or 0.
\<close>

theorem texture_variety_bonus_awarded:
  assumes "distinct (textures current)"
  shows "(texture_variety_bonus current candidate = 10 \<longleftrightarrow>
            textures current \<noteq> [] \<and> textures candidate \<noteq> []
            \<and> \<not> set (textures current) \<subseteq> set (textures candidate))
         \<and> (texture_variety_bonus current candidate \<noteq> 10 \<longleftrightarrow>
              texture_variety_bonus current candidate = 0)"
  using overlap_card_less[OF assms, of "textures candidate"]
  by (simp add: texture_variety_bonus_def Let_def)

theorem texture_variety_bonus_awarded_witness:
  "distinct (textures ((new_track ''a.wav'' ''A'' ''X'' 120)\<lparr>textures := [ATMOSPHERIC, DUB]\<rparr>))
   \<and> texture_variety_bonus
        ((new_track ''a.wav'' ''A'' ''X'' 120)\<lparr>textures := [ATMOSPHERIC, DUB]\<rparr>)
        ((new_track ''b.wav'' ''B'' ''Y'' 121)\<lparr>textures := [DUB, MINIMAL]\<rparr>) = 10
   \<and> texture_variety_bonus
        ((new_track ''a.wav'' ''A'' ''X'' 120)\<lparr>textures := [ATMOSPHERIC, DUB]\<rparr>)
        ((new_track ''b.wav'' ''B'' ''Y'' 121)\<lparr>textures := [DUB, ATMOSPHERIC, MINIMAL]\<rparr>) = 0"
proof -
  define cur where "cur = (new_track ''a.wav'' ''A'' ''X'' 120)\<lparr>textures := [ATMOSPHERIC, DUB]\<rparr>"
  define c1 where "c1 = (new_track ''b.wav'' ''B'' ''Y'' 121)\<lparr>textures := [DUB, MINIMAL]\<rparr>"
  define c2 where "c2 = (new_track ''b.wav'' ''B'' ''Y'' 121)\<lparr>textures := [DUB, ATMOSPHERIC, MINIMAL]\<rparr>"
  have tx: "textures cur = [ATMOSPHERIC, DUB]" "textures c1 = [DUB, MINIMAL]"
    "textures c2 = [DUB, ATMOSPHERIC, MINIMAL]"
    by (simp_all add: cur_def c1_def c2_def new_track_def)
  have h: "distinct (textures cur)" by (simp add: tx)
  have a: "texture_variety_bonus cur c1 = 10"
    using texture_variety_bonus_awarded[OF h, of c1] by (simp add: tx)
  have "texture_variety_bonus cur c2 \<noteq> 10"
    using texture_variety_bonus_awarded[OF h, of c2] by (simp add: tx)
  hence b: "texture_variety_bonus cur c2 = 0"
    using texture_variety_bonus_awarded[OF h, of c2] by blast
  show ?thesis using h a b unfolding cur_def c1_def c2_def by blast
qed

text \<open>
  Claim C3, as stated, fails where the two tracks share no texture: the overlap is
  empty, its size 0 is below the length of the current track's list, and the bonus
  is added (score 95, against 85 for a candidate with the same single texture).
\<close>

theorem texture_variety_bonus_counterexample:
  "texture_variety_bonus
     ((new_track ''a.wav'' ''A'' ''X'' 120)\<lparr>textures := [ATMOSPHERIC]\<rparr>)
     ((new_track ''b.wav'' ''B'' ''Y'' 121)\<lparr>textures := [DUB]\<rparr>) = 10
   \<and> set (textures ((new_track ''a.wav'' ''A'' ''X'' 120)\<lparr>textures := [ATMOSPHERIC]\<rparr>))
       \<inter> set (textures ((new_track ''b.wav'' ''B'' ''Y'' 121)\<lparr>textures := [DUB]\<rparr>)) = {}
   \<and> score_track_compatibility
        ((new_track ''a.wav'' ''A'' ''X'' 120)\<lparr>textures := [ATMOSPHERIC]\<rparr>)
        ((new_track ''b.wav'' ''B'' ''Y'' 121)\<lparr>textures := [DUB]\<rparr>) 5 = 95
   \<and> score_track_compatibility
        ((new_track ''a.wav'' ''A'' ''X'' 120)\<lparr>textures := [ATMOSPHERIC]\<rparr>)
        ((new_track ''b.wav'' ''B'' ''Y'' 121)\<lparr>textures := [ATMOSPHERIC]\<rparr>) 5 = 85"
  by (simp add: texture_variety_bonus_def score_track_compatibility_def new_track_def Let_def)

text \<open>
  Claim C8 at an outro-start marker of 0.0: the truth test \<^verbatim>\<open>if track_a.outro_start:\<close>
  treats the present marker as absent, and the fade-out starts at
  \<open>max 0 (duration - blend)\<close> = 240 instead of at the marker 0.
\<close>

theorem create_transition_zero_outro_marker:
  "\<exists>tr. create_transition
          ((new_track ''a.wav'' ''A'' ''X'' 120)\<lparr>duration := 300, outro_start := Some 0\<rparr>)
          (new_track ''b.wav'' ''B'' ''Y'' 121) 60 = Inr tr
        \<and> start_time_a tr = 240"
  by (simp add: create_transition_def new_track_def Let_def)

text \<open>
  What \<^verbatim>\<open>_create_transition\<close> does for every input with a non-zero incoming tempo: the
  fade-out starts at the outro-start marker when it is present and not 0, and at
  \<open>max 0 (duration - blend)\<close> otherwise; the fade-in starts at the intro-start marker
  when it is present, and at 0 otherwise.
\<close>

theorem create_transition_start_times:
  assumes "bpm trk_b \<noteq> 0"
  shows "\<exists>tr. create_transition trk_a trk_b blend = Inr tr
          \<and> start_time_a tr = (case outro_start trk_a of
                                  Some m \<Rightarrow> if m \<noteq> 0 then m else max 0 (duration trk_a - of_int blend)
                                | None \<Rightarrow> max 0 (duration trk_a - of_int blend))
          \<and> start_time_b tr = (case intro_start trk_b of Some m \<Rightarrow> m | None \<Rightarrow> 0)"
  using assms by (simp add: create_transition_def Let_def split: option.splits)

theorem create_transition_start_times_witness:
  "bpm demo_track_b \<noteq> 0
   \<and> (\<exists>tr. create_transition (demo_track_a\<lparr>outro_start := Some 330\<rparr>)
              (demo_track_b\<lparr>intro_start := Some 16\<rparr>) 60 = Inr tr
          \<and> start_time_a tr = 330 \<and> start_time_b tr = 16)"
proof -
  have h: "bpm (demo_track_b\<lparr>intro_start := Some 16\<rparr>) \<noteq> 0" by (simp add: demo_fields)
  from create_transition_start_times[OF h, of "demo_track_a\<lparr>outro_start := Some 330\<rparr>" 60]
  show ?thesis by (simp add: demo_fields)
qed

text \<open>The score is never negative.\<close>

theorem score_track_compatibility_nonneg:
  "0 \<le> score_track_compatibility current candidate target_energy"
  by (simp add: score_track_compatibility_def Let_def)

text \<open>
  The tempo flag of a transition uses relative bands (0.94 to 1.06 and 1.88 to 2.12),
  the library's compatibility search absolute ones (half-width 0.06 around 1, 2 and
  1/2). A 250 BPM track followed by a 120 BPM track (ratio 2.083) is therefore not
  tempo-compatible for \<^verbatim>\<open>get_compatible_tracks\<close> at 6 percent, yet its transition is
  flagged tempo-compatible.
\<close>

theorem transition_flag_wider_band:
  "\<not> bpm_ok (bpm (new_track ''a.wav'' ''A'' ''X'' 250) / bpm (new_track ''b.wav'' ''B'' ''Y'' 120)) 6
   \<and> (\<exists>tr. create_transition (new_track ''a.wav'' ''A'' ''X'' 250)
              (new_track ''b.wav'' ''B'' ''Y'' 120) 60 = Inr tr
          \<and> bpm_compatible tr)"
  by (simp add: create_transition_def new_track_def bpm_ok_def band_1_1_def band_2_1_def
        band_1_2_def Let_def)

text \<open>
  The tempo flag of a transition has no band around 1/2: a 120 BPM track followed by a
  240 BPM track is tempo-compatible for \<^verbatim>\<open>get_compatible_tracks\<close>, and its transition
  is flagged not tempo-compatible.
\<close>

theorem transition_flag_omits_half_band:
  "bpm_ok (bpm (new_track ''a.wav'' ''A'' ''X'' 120) / bpm (new_track ''b.wav'' ''B'' ''Y'' 240)) 6
   \<and> (\<exists>tr. create_transition (new_track ''a.wav'' ''A'' ''X'' 120)
              (new_track ''b.wav'' ''B'' ''Y'' 240) 60 = Inr tr
          \<and> \<not> bpm_compatible tr)"
  by (simp add: create_transition_def new_track_def bpm_ok_def band_1_1_def band_2_1_def
        band_1_2_def Let_def)

section \<open>Properties of the planner\<close>

lemma random_choice_member:
  assumes "xs \<noteq> []"
  shows "\<exists>x s'. random_choice xs s = (Inr x, s') \<and> x \<in> set xs \<and> library s' = library s"
proof (cases xs)
  case Nil
  with assms show ?thesis by simp
next
  case (Cons y ys)
  show ?thesis
  proof (cases "random_state s")
    case Nil
    with Cons show ?thesis by (simp add: random_choice_def)
  next
    case (Cons r rs)
    have "r mod length xs < length xs" using assms by simp
    hence "xs ! (r mod length xs) \<in> set xs" by (rule nth_mem)
    with Cons \<open>xs = y # ys\<close> show ?thesis by (simp add: random_choice_def)
  qed
qed

lemma prefer_nonempty_subset: "set (prefer_nonempty P xs) \<subseteq> set xs"
  by (auto simp: prefer_nonempty_def)

lemma prefer_nonempty_Nil: "prefer_nonempty P xs = [] \<longleftrightarrow> xs = []"
  by (auto simp: prefer_nonempty_def)

lemma opener_hard_filters:
  "(case key_center journey_arc of
      Some kc \<Rightarrow>
        if strict_key
        then filter (\<lambda>t. key_compatible_to t kc)
               (filter (\<lambda>t. \<bar>energy_level t - (case energy_curve journey_arc of [] \<Rightarrow> 2 | e # _ \<Rightarrow> e)\<bar> \<le> 1)
                 (find_tracks_by_bpm_range lib (fst (bpm_range journey_arc)) (snd (bpm_range journey_arc))))
        else filter (\<lambda>t. \<bar>energy_level t - (case energy_curve journey_arc of [] \<Rightarrow> 2 | e # _ \<Rightarrow> e)\<bar> \<le> 1)
               (find_tracks_by_bpm_range lib (fst (bpm_range journey_arc)) (snd (bpm_range journey_arc)))
    | None \<Rightarrow> filter (\<lambda>t. \<bar>energy_level t - (case energy_curve journey_arc of [] \<Rightarrow> 2 | e # _ \<Rightarrow> e)\<bar> \<le> 1)
                (find_tracks_by_bpm_range lib (fst (bpm_range journey_arc)) (snd (bpm_range journey_arc))))
   = filter (opener_mandatory journey_arc strict_key) (tracks lib)"
proof -
  define te where "te = (case energy_curve journey_arc of [] \<Rightarrow> 2 | e # _ \<Rightarrow> e)"
  define base where "base = filter (\<lambda>t. \<bar>energy_level t - te\<bar> \<le> 1)
       (find_tracks_by_bpm_range lib (fst (bpm_range journey_arc)) (snd (bpm_range journey_arc)))"
  have base_eq: "base = filter (\<lambda>t. fst (bpm_range journey_arc) \<le> bpm t
                                  \<and> bpm t \<le> snd (bpm_range journey_arc)
                                  \<and> \<bar>energy_level t - te\<bar> \<le> 1) (tracks lib)"
    by (simp add: base_def find_tracks_by_bpm_range_def)
  show ?thesis
  proof (cases "key_center journey_arc")
    case None
    have "filter (opener_mandatory journey_arc strict_key) (tracks lib) = base"
      unfolding base_eq by (rule filter_cong) (simp_all add: opener_mandatory_def None te_def)
    thus ?thesis unfolding te_def[symmetric] base_def[symmetric] by (simp add: None)
  next
    case (Some kc)
    show ?thesis
    proof (cases strict_key)
      case True
      have "filter (opener_mandatory journey_arc strict_key) (tracks lib)
              = filter (\<lambda>t. key_compatible_to t kc) base"
        unfolding base_eq filter_filter
        by (rule filter_cong) (simp_all add: opener_mandatory_def Some True te_def)
      thus ?thesis unfolding te_def[symmetric] base_def[symmetric] by (simp add: Some True)
    next
      case False
      have "filter (opener_mandatory journey_arc strict_key) (tracks lib) = base"
        unfolding base_eq by (rule filter_cong) (simp_all add: opener_mandatory_def Some False te_def)
      thus ?thesis unfolding te_def[symmetric] base_def[symmetric] by (simp add: Some False)
    qed
  qed
qed

lemma select_opener_candidates_steps:
  "select_opener_candidates lib journey_arc strict_key prefer_labels =
     (let mandatory = filter (opener_mandatory journey_arc strict_key) (tracks lib);
          by_position = prefer_nonempty (\<lambda>t. journey_position t = Some OPENER) mandatory;
          by_texture = prefer_nonempty
                         (\<lambda>t. ATMOSPHERIC \<in> set (textures t) \<or> MINIMAL \<in> set (textures t))
                         by_position
      in if prefer_labels \<and> preferred_labels journey_arc \<noteq> []
         then prefer_nonempty (matches_preferred_label (preferred_labels journey_arc)) by_texture
         else by_texture)"
  unfolding select_opener_candidates_def prefer_nonempty_def Let_def opener_hard_filters
  by (rule refl)

lemma select_opener_candidates_subset:
  "set (select_opener_candidates lib journey_arc strict_key prefer_labels)
     \<subseteq> set (filter (opener_mandatory journey_arc strict_key) (tracks lib))"
proof -
  define m where "m = filter (opener_mandatory journey_arc strict_key) (tracks lib)"
  define a where "a = prefer_nonempty (\<lambda>t. journey_position t = Some OPENER) m"
  define b where "b = prefer_nonempty (\<lambda>t. ATMOSPHERIC \<in> set (textures t) \<or> MINIMAL \<in> set (textures t)) a"
  define c where "c = prefer_nonempty (matches_preferred_label (preferred_labels journey_arc)) b"
  have "set a \<subseteq> set m" "set b \<subseteq> set a" "set c \<subseteq> set b"
    by (simp_all add: a_def b_def c_def prefer_nonempty_subset)
  hence cm: "set c \<subseteq> set m" and bm: "set b \<subseteq> set m" by blast+
  have "select_opener_candidates lib journey_arc strict_key prefer_labels
          = (if prefer_labels \<and> preferred_labels journey_arc \<noteq> [] then c else b)"
    by (simp add: select_opener_candidates_steps Let_def m_def a_def b_def c_def)
  thus ?thesis using cm bm by (simp add: m_def)
qed

lemma select_opener_candidates_Nil:
  "select_opener_candidates lib journey_arc strict_key prefer_labels = []
     \<longleftrightarrow> filter (opener_mandatory journey_arc strict_key) (tracks lib) = []"
  unfolding select_opener_candidates_steps Let_def
  by (simp add: prefer_nonempty_Nil)

lemma select_opener_result:
  "(filter (opener_mandatory journey_arc strict_key) (tracks (library s)) = []
      \<and> select_opener journey_arc strict_key prefer_labels s = (Inr None, s))
   \<or> (filter (opener_mandatory journey_arc strict_key) (tracks (library s)) \<noteq> []
      \<and> (\<exists>t s'. select_opener journey_arc strict_key prefer_labels s = (Inr (Some t), s')
             \<and> t \<in> set (tracks (library s)) \<and> opener_mandatory journey_arc strict_key t
             \<and> library s' = library s))"
proof (cases "select_opener_candidates (library s) journey_arc strict_key prefer_labels = []")
  case True
  then show ?thesis
    using select_opener_candidates_Nil[of "library s" journey_arc strict_key prefer_labels]
    by (simp add: select_opener_def)
next
  case False
  from random_choice_member[OF False, of s] obtain t s' where
    rc: "random_choice (select_opener_candidates (library s) journey_arc strict_key prefer_labels) s = (Inr t, s')"
        "t \<in> set (select_opener_candidates (library s) journey_arc strict_key prefer_labels)"
        "library s' = library s" by blast
  from rc(2) select_opener_candidates_subset
  have "t \<in> set (filter (opener_mandatory journey_arc strict_key) (tracks (library s)))" by blast
  hence tm: "t \<in> set (tracks (library s))" "opener_mandatory journey_arc strict_key t" by simp_all
  have "select_opener journey_arc strict_key prefer_labels s = (Inr (Some t), s')"
    using False rc(1) by (simp add: select_opener_def)
  moreover have "filter (opener_mandatory journey_arc strict_key) (tracks (library s)) \<noteq> []"
    using False select_opener_candidates_Nil[of "library s" journey_arc strict_key prefer_labels] by simp
  ultimately show ?thesis using tm rc(3) by blast
qed

lemma compatible_loop_error:
  "compatible_loop r p k ts acc = Inl e \<Longrightarrow> e = ZeroDivisionError"
  by (induction ts arbitrary: acc) (auto split: if_splits)

lemma compatible_loop_subset:
  "compatible_loop r p k ts acc = Inr res \<Longrightarrow> set res \<subseteq> set acc \<union> set ts"
proof (induction ts arbitrary: acc)
  case Nil
  then show ?case by simp
next
  case (Cons t ts)
  then show ?case by (fastforce split: if_splits)
qed

lemma successor_candidates_error:
  "successor_candidates lib cur te arc sk used = Inl e \<Longrightarrow> e = ZeroDivisionError"
  by (auto simp: successor_candidates_def get_compatible_tracks_def Let_def
           split: sum.splits dest: compatible_loop_error)

lemma successor_candidates_sound:
  assumes "successor_candidates lib cur te arc sk used = Inr cands" "t \<in> set cands"
  shows "file_path t \<notin> set used \<and> t \<in> set (tracks lib)"
proof -
  from assms(1) obtain compat where
    c: "get_compatible_tracks lib cur 6 sk = Inr compat"
       "cands = filter (\<lambda>t. fst (bpm_range arc) \<le> bpm t \<and> bpm t \<le> snd (bpm_range arc))
                  (filter (\<lambda>t. \<bar>energy_level t - te\<bar> \<le> 1)
                     (filter (\<lambda>t. file_path t \<notin> set used) compat))"
    by (auto simp: successor_candidates_def Let_def split: sum.splits)
  from c(1) have "set compat \<subseteq> set (tracks lib)"
    using compatible_loop_subset[of cur 6 sk "tracks lib" "[]" compat]
    by (simp add: get_compatible_tracks_def)
  with assms(2) c(2) show ?thesis by auto
qed

lemma rank_candidates_subset:
  "fst ` set (rank_candidates cur te arc pl cands) \<subseteq> set cands"
  by (auto simp: rank_candidates_def Let_def split: option.splits if_splits)

lemma rank_candidates_Nil:
  "rank_candidates cur te arc pl cands = [] \<longleftrightarrow> cands = []"
proof -
  have "length (rank_candidates cur te arc pl cands) = 0 \<longleftrightarrow> cands = []"
    by (auto simp: rank_candidates_def Let_def split: option.splits if_splits)
  thus ?thesis by simp
qed

lemma select_next_track_result:
  assumes "select_next_track cur te arc sk pl used s = (r, s')"
  shows "library s' = library s \<and>
         (case r of
            Inl e \<Rightarrow> e = ZeroDivisionError
          | Inr None \<Rightarrow> successor_candidates (library s) cur te arc sk used = Inr []
          | Inr (Some t) \<Rightarrow> file_path t \<notin> set used \<and> t \<in> set (tracks (library s)))"
proof (cases "successor_candidates (library s) cur te arc sk used")
  case (Inl e)
  with assms successor_candidates_error[OF Inl] show ?thesis
    by (auto simp: select_next_track_def)
next
  case (Inr cands)
  show ?thesis
  proof (cases "cands = []")
    case True
    with Inr assms show ?thesis by (auto simp: select_next_track_def)
  next
    case False
    define ranked where "ranked = rank_candidates cur te arc pl cands"
    have ne: "ranked \<noteq> []" using False by (simp add: ranked_def rank_candidates_Nil)
    have sub: "fst ` set ranked \<subseteq> set cands" by (simp add: ranked_def rank_candidates_subset)
    show ?thesis
    proof (cases "length ranked \<le> 3")
      case True
      from ne obtain b bs where rk: "ranked = b # bs" by (cases ranked) auto
      hence "fst b \<in> set cands" using sub by auto
      hence ok: "file_path (fst b) \<notin> set used \<and> fst b \<in> set (tracks (library s))"
        using successor_candidates_sound[OF Inr] by blast
      have "select_next_track cur te arc sk pl used s = (Inr (Some (fst b)), s)"
        using Inr False True rk by (simp add: select_next_track_def ranked_def[symmetric] Let_def)
      with assms ok show ?thesis by auto
    next
      case long: False
      have t3: "map fst (take 3 ranked) \<noteq> []" using ne by (cases ranked) auto
      from random_choice_member[OF t3, of s] obtain x s2 where
        rc: "random_choice (map fst (take 3 ranked)) s = (Inr x, s2)"
            "x \<in> set (map fst (take 3 ranked))" "library s2 = library s" by blast
      have "set (map fst (take 3 ranked)) \<subseteq> fst ` set ranked"
        using set_take_subset[of 3 ranked] by auto
      hence "x \<in> set cands" using rc(2) sub by blast
      hence ok: "file_path x \<notin> set used \<and> x \<in> set (tracks (library s))"
        using successor_candidates_sound[OF Inr] by blast
      have "select_next_track cur te arc sk pl used s = (Inr (Some x), s2)"
        using Inr False long rc(1) by (simp add: select_next_track_def ranked_def[symmetric] Let_def)
      with assms ok rc(3) show ?thesis by auto
    qed
  qed
qed

lemma create_transition_error:
  "create_transition a b blend = Inl e \<Longrightarrow> e = ZeroDivisionError"
  by (auto simp: create_transition_def Let_def split: if_splits)

lemma playlist_loop_invariant:
  assumes "playlist_loop arc sk pl idxs st s = (r, s')"
  shows "library s' = library s \<and>
         (case r of
            Inl e \<Rightarrow> e = ZeroDivisionError
          | Inr st' \<Rightarrow>
              (distinct (map file_path (selected_tracks st))
                 \<longrightarrow> distinct (map file_path (selected_tracks st')))
              \<and> (length (transitions st) + 1 = length (selected_tracks st)
                 \<longrightarrow> length (transitions st') + 1 = length (selected_tracks st')))"
  using assms
proof (induction idxs arbitrary: st s)
  case Nil
  then show ?case by auto
next
  case (Cons i rest)
  define te where "te = (if i < length (energy_curve arc) then energy_curve arc ! i else 5)"
  obtain r1 s1 where sn: "select_next_track (current_track st) te arc sk pl
                            (map file_path (selected_tracks st)) s = (r1, s1)"
    by (cases "select_next_track (current_track st) te arc sk pl (map file_path (selected_tracks st)) s")
  note res = select_next_track_result[OF sn]
  show ?case
  proof (cases r1)
    case (Inl e)
    with Cons.prems sn res show ?thesis by (auto simp: te_def[symmetric] Let_def)
  next
    case (Inr topt)
    show ?thesis
    proof (cases topt)
      case None
      with Inr Cons.prems sn res show ?thesis by (auto simp: te_def[symmetric] Let_def)
    next
      case (Some nxt)
      have fresh: "file_path nxt \<notin> set (map file_path (selected_tracks st))"
        using res Inr Some by simp
      have lib1: "library s1 = library s" using res by simp
      show ?thesis
      proof (cases "create_transition (current_track st) nxt (blend_duration arc)")
        case (Inl e)
        with create_transition_error[OF Inl] Inr Some Cons.prems sn lib1 show ?thesis
          by (auto simp: te_def[symmetric] Let_def)
      next
        case tr: (Inr transition)
        define st1 where "st1 = \<lparr>selected_tracks = selected_tracks st @ [nxt],
                                  transitions = transitions st @ [transition],
                                  current_track = nxt\<rparr>"
        have "playlist_loop arc sk pl rest st1 s1 = (r, s')"
          using Cons.prems sn Inr Some tr by (simp add: te_def[symmetric] Let_def st1_def)
        from Cons.IH[OF this] lib1 fresh show ?thesis
          by (cases r) (auto simp: st1_def)
      qed
    qed
  qed
qed

section \<open>Properties of playlist generation\<close>

lemma pl_tracks_calculate_duration:
  "pl_tracks (calculate_duration p) = pl_tracks p \<and> pl_transitions (calculate_duration p) = pl_transitions p"
  by (simp add: calculate_duration_def split: list.splits)

lemma generate_playlist_after_opener:
  assumes "select_opener journey_arc strict_key prefer_labels s0 = (Inr (Some first_track), s1)"
  shows "generate_playlist journey_arc strict_key prefer_labels now s0 =
           (case playlist_loop journey_arc strict_key prefer_labels
                   [1..<nat (num_tracks journey_arc)]
                   \<lparr>selected_tracks = [first_track], transitions = [],
                    current_track = first_track\<rparr> s1 of
              (Inl e, s2) \<Rightarrow> (Inl e, s2)
            | (Inr st, s2) \<Rightarrow>
                (Inr (calculate_duration
                        \<lparr>pl_name = arc_name journey_arc, pl_journey_arc = journey_arc,
                         pl_tracks = selected_tracks st, pl_transitions = transitions st,
                         pl_total_duration = 0, pl_created_at = Some now\<rparr>), s2))"
  using assms by (simp add: generate_playlist_def)

lemma loop_reaches_run:
  assumes "loop_reaches journey_arc strict_key prefer_labels s0 idxs st s"
  shows "generate_playlist journey_arc strict_key prefer_labels now s0 =
           (case playlist_loop journey_arc strict_key prefer_labels idxs st s of
              (Inl e, s2) \<Rightarrow> (Inl e, s2)
            | (Inr st', s2) \<Rightarrow>
                (Inr (calculate_duration
                        \<lparr>pl_name = arc_name journey_arc, pl_journey_arc = journey_arc,
                         pl_tracks = selected_tracks st', pl_transitions = transitions st',
                         pl_total_duration = 0, pl_created_at = Some now\<rparr>), s2))"
  using assms
proof (induction rule: loop_reaches.induct)
  case (after_opener first_track s1)
  then show ?case by (rule generate_playlist_after_opener)
next
  case (after_iteration i rest st s next_track s' transition)
  have "playlist_loop journey_arc strict_key prefer_labels (i # rest) st s
          = playlist_loop journey_arc strict_key prefer_labels rest
              \<lparr>selected_tracks = selected_tracks st @ [next_track],
               transitions = transitions st @ [transition],
               current_track = next_track\<rparr> s'"
    using after_iteration.hyps(2,3) by (simp add: Let_def)
  with after_iteration.IH show ?case by simp
qed


subsection \<open>A concrete run\<close>

lemma demo_opener:
  "select_opener demo_arc False True demo_state
     = (Inr (Some demo_track_a), \<lparr>library = demo_library, random_state = [0]\<rparr>)"
  by (simp add: select_opener_def select_opener_candidates_def find_tracks_by_bpm_range_def
        demo_arc_def demo_state_def demo_tracks demo_fields random_choice_def
        matches_preferred_label_def Let_def)

lemma demo_compatible_a:
  "get_compatible_tracks demo_library demo_track_a 6 False = Inr [demo_track_b]"
  by (simp add: get_compatible_tracks_def demo_tracks demo_fields demo_distinct
        bpm_ok_def band_1_1_def band_2_1_def band_1_2_def)

lemma demo_compatible_b:
  "get_compatible_tracks demo_library demo_track_b 6 False = Inr [demo_track_a, demo_track_c]"
  by (simp add: get_compatible_tracks_def demo_tracks demo_fields demo_distinct
        bpm_ok_def band_1_1_def band_2_1_def band_1_2_def)

lemma demo_next_after_a:
  "select_next_track demo_track_a 3 demo_arc False True [''a.wav'']
     \<lparr>library = demo_library, random_state = [0]\<rparr>
   = (Inr (Some demo_track_b), \<lparr>library = demo_library, random_state = [0]\<rparr>)"
  by (simp add: select_next_track_def successor_candidates_def demo_compatible_a
        rank_candidates_def matches_preferred_label_def demo_fields demo_arc_def Let_def)

lemma demo_create_transition:
  "create_transition demo_track_a demo_track_b 60 = Inr demo_transition"
  by (simp add: create_transition_def demo_transition_def demo_fields demo_more_fields
        py_str_int_def Let_def)

lemma demo_indices: "[1..<nat (num_tracks demo_arc)] = [1, 2]"
  by (simp add: demo_arc_def upt_rec)

lemma demo_reaches_second_iteration:
  "loop_reaches demo_arc False True demo_state [2]
     \<lparr>selected_tracks = [demo_track_a, demo_track_b], transitions = [demo_transition],
      current_track = demo_track_b\<rparr>
     \<lparr>library = demo_library, random_state = [0]\<rparr>"
proof -
  have r0: "loop_reaches demo_arc False True demo_state [1, 2]
              \<lparr>selected_tracks = [demo_track_a], transitions = [], current_track = demo_track_a\<rparr>
              \<lparr>library = demo_library, random_state = [0]\<rparr>"
    by (rule loop_reaches.after_opener[OF demo_opener, unfolded demo_indices])
  have nx: "select_next_track
              (current_track \<lparr>selected_tracks = [demo_track_a], transitions = [], current_track = demo_track_a\<rparr>)
              (if 1 < length (energy_curve demo_arc) then energy_curve demo_arc ! 1 else 5)
              demo_arc False True
              (map file_path (selected_tracks \<lparr>selected_tracks = [demo_track_a], transitions = [], current_track = demo_track_a\<rparr>))
              \<lparr>library = demo_library, random_state = [0]\<rparr>
            = (Inr (Some demo_track_b), \<lparr>library = demo_library, random_state = [0]\<rparr>)"
    using demo_next_after_a by (simp add: demo_arc_def demo_fields)
  have ct: "create_transition
              (current_track \<lparr>selected_tracks = [demo_track_a], transitions = [], current_track = demo_track_a\<rparr>)
              demo_track_b (blend_duration demo_arc) = Inr demo_transition"
    using demo_create_transition by (simp add: demo_arc_def)
  from loop_reaches.after_iteration[OF r0 nx ct] show ?thesis by simp
qed


lemma demo_next_after_b:
  "select_next_track demo_track_b 4 demo_arc False True [''a.wav'', ''b.wav'']
     \<lparr>library = demo_library, random_state = [0]\<rparr>
   = (Inr None, \<lparr>library = demo_library, random_state = [0]\<rparr>)"
  by (simp add: select_next_track_def successor_candidates_def demo_compatible_b
        demo_fields demo_arc_def Let_def)

lemma demo_run:
  "\<exists>p. fst (generate_playlist demo_arc False True now demo_state) = Inr p
       \<and> pl_tracks p = [demo_track_a, demo_track_b] \<and> pl_transitions p = [demo_transition]"
proof -
  have "playlist_loop demo_arc False True [2]
          \<lparr>selected_tracks = [demo_track_a, demo_track_b], transitions = [demo_transition],
           current_track = demo_track_b\<rparr>
          \<lparr>library = demo_library, random_state = [0]\<rparr>
        = (Inr \<lparr>selected_tracks = [demo_track_a, demo_track_b], transitions = [demo_transition],
                 current_track = demo_track_b\<rparr>,
           \<lparr>library = demo_library, random_state = [0]\<rparr>)"
    using demo_next_after_b by (simp add: demo_arc_def demo_fields Let_def)
  with loop_reaches_run[OF demo_reaches_second_iteration, of now]
  show ?thesis by (simp add: pl_tracks_calculate_duration)
qed

lemma demo_mandatory:
  "filter (opener_mandatory demo_arc False) (tracks (library demo_state)) = [demo_track_a, demo_track_b]"
  "filter (opener_mandatory (demo_arc\<lparr>key_center := Some A_MINOR\<rparr>) True) (tracks (library demo_state)) = []"
  by (simp_all add: opener_mandatory_def demo_state_def demo_tracks demo_fields demo_arc_def
        key_compatible_to_def)

subsection \<open>The opener and the no-opener error\<close>

text \<open>
  Claim C2, as stated, fails for the strict-key filter: that filter replaces the
  candidate list even when nothing passes it. With \<^verbatim>\<open>strict_key\<close>, a key centre and a
  library whose tracks carry no key, \<^verbatim>\<open>generate_playlist\<close> raises the no-opener error
  although \<open>demo_track_a\<close> lies in the arc's tempo range with an energy within 1 of the
  curve's first value.
\<close>

theorem no_opener_error_counterexample:
  "fst (generate_playlist (demo_arc\<lparr>key_center := Some A_MINOR\<rparr>) True True ''2026-11-03'' demo_state)
     = Inl (ValueError ''No suitable opener found in library'')
   \<and> demo_track_a \<in> set (tracks (library demo_state))
   \<and> fst (bpm_range (demo_arc\<lparr>key_center := Some A_MINOR\<rparr>)) \<le> bpm demo_track_a
   \<and> bpm demo_track_a \<le> snd (bpm_range (demo_arc\<lparr>key_center := Some A_MINOR\<rparr>))
   \<and> \<bar>energy_level demo_track_a - hd (energy_curve (demo_arc\<lparr>key_center := Some A_MINOR\<rparr>))\<bar> \<le> 1"
proof -
  have "select_opener_candidates (library demo_state) (demo_arc\<lparr>key_center := Some A_MINOR\<rparr>) True True = []"
    using demo_mandatory(2) by (simp add: select_opener_candidates_Nil)
  hence "fst (generate_playlist (demo_arc\<lparr>key_center := Some A_MINOR\<rparr>) True True ''2026-11-03'' demo_state)
           = Inl (ValueError ''No suitable opener found in library'')"
    by (simp add: generate_playlist_def select_opener_def)
  thus ?thesis by (simp add: demo_state_def demo_tracks demo_fields demo_arc_def)
qed

text \<open>
  Claim C2, amended. \<^verbatim>\<open>generate_playlist\<close> raises the no-opener error exactly when no
  track of the library passes the hard filters of the opener search: tempo inside the
  arc's range, energy within 1 of the target (the curve's first value, 2 for an empty
  curve) and, when \<^verbatim>\<open>strict_key\<close> is set and the arc has a key centre, a key compatible
  with it. The three later steps (opener journey position, atmospheric or minimal
  texture, preferred label) are each skipped when they would leave nothing. When the
  error is raised, no playlist is returned.
\<close>

theorem no_opener_error_amended:
  "(fst (generate_playlist journey_arc strict_key prefer_labels now s)
      = Inl (ValueError ''No suitable opener found in library'')
    \<longleftrightarrow> filter (opener_mandatory journey_arc strict_key) (tracks (library s)) = [])
   \<and> select_opener_candidates (library s) journey_arc strict_key prefer_labels =
       (let mandatory = filter (opener_mandatory journey_arc strict_key) (tracks (library s));
            by_position = prefer_nonempty (\<lambda>t. journey_position t = Some OPENER) mandatory;
            by_texture = prefer_nonempty
                           (\<lambda>t. ATMOSPHERIC \<in> set (textures t) \<or> MINIMAL \<in> set (textures t))
                           by_position
        in if prefer_labels \<and> preferred_labels journey_arc \<noteq> []
           then prefer_nonempty (matches_preferred_label (preferred_labels journey_arc)) by_texture
           else by_texture)
   \<and> (fst (generate_playlist journey_arc strict_key prefer_labels now s)
         = Inl (ValueError ''No suitable opener found in library'')
       \<longrightarrow> (\<forall>p. fst (generate_playlist journey_arc strict_key prefer_labels now s) \<noteq> Inr p))"
proof -
  have iff: "fst (generate_playlist journey_arc strict_key prefer_labels now s)
               = Inl (ValueError ''No suitable opener found in library'')
             \<longleftrightarrow> filter (opener_mandatory journey_arc strict_key) (tracks (library s)) = []"
  proof -
    from select_opener_result[of journey_arc strict_key s prefer_labels]
    consider "filter (opener_mandatory journey_arc strict_key) (tracks (library s)) = []"
        "select_opener journey_arc strict_key prefer_labels s = (Inr None, s)"
      | t s1 where "filter (opener_mandatory journey_arc strict_key) (tracks (library s)) \<noteq> []"
        "select_opener journey_arc strict_key prefer_labels s = (Inr (Some t), s1)"
      by blast
    then show ?thesis
    proof cases
      case 1
      then show ?thesis by (simp add: generate_playlist_def)
    next
      case 2
      define st0 where "st0 = \<lparr>selected_tracks = [t], transitions = [], current_track = t\<rparr>"
      obtain r s2 where lp: "playlist_loop journey_arc strict_key prefer_labels
                               [1..<nat (num_tracks journey_arc)] st0 s1 = (r, s2)"
        by (cases "playlist_loop journey_arc strict_key prefer_labels [1..<nat (num_tracks journey_arc)] st0 s1")
      have "fst (generate_playlist journey_arc strict_key prefer_labels now s)
              \<noteq> Inl (ValueError ''No suitable opener found in library'')"
        using generate_playlist_after_opener[OF 2(2), of now] lp playlist_loop_invariant[OF lp]
        by (cases r) (auto simp: st0_def)
      with 2(1) show ?thesis by simp
    qed
  qed
  have no_partial:
    "fst (generate_playlist journey_arc strict_key prefer_labels now s)
       = Inl (ValueError ''No suitable opener found in library'')
     \<longrightarrow> (\<forall>p. fst (generate_playlist journey_arc strict_key prefer_labels now s) \<noteq> Inr p)"
    by auto
  show ?thesis
    by (intro conjI iff no_partial select_opener_candidates_steps)
qed

theorem no_opener_error_amended_witness:
  "filter (opener_mandatory (demo_arc\<lparr>key_center := Some A_MINOR\<rparr>) True) (tracks (library demo_state)) = []
   \<and> fst (generate_playlist (demo_arc\<lparr>key_center := Some A_MINOR\<rparr>) True True ''2026-11-03'' demo_state)
       = Inl (ValueError ''No suitable opener found in library'')
   \<and> filter (opener_mandatory demo_arc False) (tracks (library demo_state)) = [demo_track_a, demo_track_b]
   \<and> fst (generate_playlist demo_arc False True ''2026-11-03'' demo_state)
       \<noteq> Inl (ValueError ''No suitable opener found in library'')
   \<and> select_opener_candidates (library demo_state) demo_arc False True = [demo_track_a, demo_track_b]"
proof -
  note strict = no_opener_error_amended[of "demo_arc\<lparr>key_center := Some A_MINOR\<rparr>" True True
                  "''2026-11-03''" demo_state]
  note lax = no_opener_error_amended[of demo_arc False True "''2026-11-03''" demo_state]
  have a: "fst (generate_playlist (demo_arc\<lparr>key_center := Some A_MINOR\<rparr>) True True ''2026-11-03'' demo_state)
             = Inl (ValueError ''No suitable opener found in library'')"
    using strict demo_mandatory(2) by blast
  have b: "fst (generate_playlist demo_arc False True ''2026-11-03'' demo_state)
             \<noteq> Inl (ValueError ''No suitable opener found in library'')"
    using lax demo_mandatory(1) by simp
  have "select_opener_candidates (library demo_state) demo_arc False True
          = (let mandatory = [demo_track_a, demo_track_b];
                 by_position = prefer_nonempty (\<lambda>t. journey_position t = Some OPENER) mandatory;
                 by_texture = prefer_nonempty
                                (\<lambda>t. ATMOSPHERIC \<in> set (textures t) \<or> MINIMAL \<in> set (textures t))
                                by_position
             in if True \<and> preferred_labels demo_arc \<noteq> []
                then prefer_nonempty (matches_preferred_label (preferred_labels demo_arc)) by_texture
                else by_texture)"
    using lax demo_mandatory(1) by simp
  hence c: "select_opener_candidates (library demo_state) demo_arc False True = [demo_track_a, demo_track_b]"
    by (simp add: prefer_nonempty_def demo_fields matches_preferred_label_def Let_def demo_arc_def)
  show ?thesis using a b c demo_mandatory by simp
qed

subsection \<open>Truncation\<close>



subsection \<open>No track twice\<close>

text \<open>
  Claim C10. In every playlist \<^verbatim>\<open>generate_playlist\<close> returns, the file paths of the
  selected tracks are pairwise distinct: each successor is taken from candidates whose
  file path is not among the paths already selected.
\<close>

theorem generate_playlist_tracks_distinct:
  assumes "fst (generate_playlist journey_arc strict_key prefer_labels now s) = Inr p"
  shows "distinct (map file_path (pl_tracks p))"
proof -
  from select_opener_result[of journey_arc strict_key s prefer_labels]
  consider "select_opener journey_arc strict_key prefer_labels s = (Inr None, s)"
    | t s1 where "select_opener journey_arc strict_key prefer_labels s = (Inr (Some t), s1)"
    by blast
  then show ?thesis
  proof cases
    case 1
    with assms show ?thesis by (simp add: generate_playlist_def)
  next
    case 2
    define st0 where "st0 = \<lparr>selected_tracks = [t], transitions = [], current_track = t\<rparr>"
    obtain r s2 where lp: "playlist_loop journey_arc strict_key prefer_labels
                             [1..<nat (num_tracks journey_arc)] st0 s1 = (r, s2)"
      by (cases "playlist_loop journey_arc strict_key prefer_labels [1..<nat (num_tracks journey_arc)] st0 s1")
    note inv = playlist_loop_invariant[OF lp]
    from assms generate_playlist_after_opener[OF 2, of now] lp
    obtain st' where r: "r = Inr st'"
      and p: "p = calculate_duration
                    \<lparr>pl_name = arc_name journey_arc, pl_journey_arc = journey_arc,
                     pl_tracks = selected_tracks st', pl_transitions = transitions st',
                     pl_total_duration = 0, pl_created_at = Some now\<rparr>"
      by (cases r) (auto simp: st0_def)
    have "distinct (map file_path (selected_tracks st'))"
      using inv r by (simp add: st0_def)
    thus ?thesis by (simp add: p pl_tracks_calculate_duration)
  qed
qed

theorem generate_playlist_tracks_distinct_witness:
  "\<exists>p. fst (generate_playlist demo_arc False True ''2026-11-03'' demo_state) = Inr p
       \<and> pl_tracks p = [demo_track_a, demo_track_b]
       \<and> distinct (map file_path (pl_tracks p))"
proof -
  from demo_run[of "''2026-11-03''"] obtain p where
    p: "fst (generate_playlist demo_arc False True ''2026-11-03'' demo_state) = Inr p"
       "pl_tracks p = [demo_track_a, demo_track_b]" by blast
  from generate_playlist_tracks_distinct[OF p(1)] p show ?thesis by blast
qed

subsection \<open>The library is only read\<close>

text \<open>
  Claim C9. Whatever \<^verbatim>\<open>generate_playlist\<close> returns or raises, the state it leaves
  holds the library it started with: the primary track list and the by-key and by-tempo
  indexes are the same, and with them every field of every track. Nothing but the random
  source can have changed.
\<close>

theorem generate_playlist_library_unchanged:
  "library (snd (generate_playlist journey_arc strict_key prefer_labels now s)) = library s
   \<and> tracks (library (snd (generate_playlist journey_arc strict_key prefer_labels now s)))
       = tracks (library s)
   \<and> tracks_by_key (library (snd (generate_playlist journey_arc strict_key prefer_labels now s)))
       = tracks_by_key (library s)
   \<and> tracks_by_bpm (library (snd (generate_playlist journey_arc strict_key prefer_labels now s)))
       = tracks_by_bpm (library s)"
proof -
  have "library (snd (generate_playlist journey_arc strict_key prefer_labels now s)) = library s"
  proof -
    from select_opener_result[of journey_arc strict_key s prefer_labels]
    consider "select_opener journey_arc strict_key prefer_labels s = (Inr None, s)"
      | t s1 where "select_opener journey_arc strict_key prefer_labels s = (Inr (Some t), s1)"
          "library s1 = library s"
      by blast
    then show ?thesis
    proof cases
      case 1
      then show ?thesis by (simp add: generate_playlist_def)
    next
      case 2
      define st0 where "st0 = \<lparr>selected_tracks = [t], transitions = [], current_track = t\<rparr>"
      obtain r s2 where lp: "playlist_loop journey_arc strict_key prefer_labels
                               [1..<nat (num_tracks journey_arc)] st0 s1 = (r, s2)"
        by (cases "playlist_loop journey_arc strict_key prefer_labels [1..<nat (num_tracks journey_arc)] st0 s1")
      from playlist_loop_invariant[OF lp] 2(2) have "library s2 = library s" by simp
      moreover have "snd (generate_playlist journey_arc strict_key prefer_labels now s) = s2"
        using generate_playlist_after_opener[OF 2(1), of now] lp
        by (cases r) (simp_all add: st0_def)
      ultimately show ?thesis by simp
    qed
  qed
  thus ?thesis by simp
qed

subsection \<open>Shape of a returned playlist\<close>

lemma playlist_loop_lengths:
  assumes "playlist_loop arc sk pl idxs st s = (Inr st', s')"
    and "length (transitions st) + 1 = length (selected_tracks st)"
  shows "length (transitions st') + 1 = length (selected_tracks st')"
  using playlist_loop_invariant[OF assms(1)] assms(2) by simp

text \<open>
  Every playlist \<^verbatim>\<open>generate_playlist\<close> returns has at least one track and exactly one
  transition fewer than tracks.
\<close>

theorem generate_playlist_transition_count:
  assumes "fst (generate_playlist journey_arc strict_key prefer_labels now s) = Inr p"
  shows "1 \<le> length (pl_tracks p) \<and> length (pl_transitions p) + 1 = length (pl_tracks p)"
proof -
  from select_opener_result[of journey_arc strict_key s prefer_labels]
  consider "select_opener journey_arc strict_key prefer_labels s = (Inr None, s)"
    | t s1 where "select_opener journey_arc strict_key prefer_labels s = (Inr (Some t), s1)"
    by blast
  then show ?thesis
  proof cases
    case 1
    with assms show ?thesis by (simp add: generate_playlist_def)
  next
    case 2
    define st0 where "st0 = \<lparr>selected_tracks = [t], transitions = [], current_track = t\<rparr>"
    obtain r s2 where lp: "playlist_loop journey_arc strict_key prefer_labels
                             [1..<nat (num_tracks journey_arc)] st0 s1 = (r, s2)"
      by (cases "playlist_loop journey_arc strict_key prefer_labels [1..<nat (num_tracks journey_arc)] st0 s1")
    from assms generate_playlist_after_opener[OF 2, of now] lp
    obtain st' where r: "r = Inr st'"
      and p: "p = calculate_duration
                    \<lparr>pl_name = arc_name journey_arc, pl_journey_arc = journey_arc,
                     pl_tracks = selected_tracks st', pl_transitions = transitions st',
                     pl_total_duration = 0, pl_created_at = Some now\<rparr>"
      by (cases r) (auto simp: st0_def)
    have "length (transitions st') + 1 = length (selected_tracks st')"
      using playlist_loop_lengths[OF lp[unfolded r]] by (simp add: st0_def)
    thus ?thesis by (simp add: p pl_tracks_calculate_duration)
  qed
qed

theorem generate_playlist_transition_count_witness:
  "\<exists>p. fst (generate_playlist demo_arc False True ''2026-11-03'' demo_state) = Inr p
       \<and> length (pl_tracks p) = 2 \<and> length (pl_transitions p) + 1 = length (pl_tracks p)"
proof -
  from demo_run[of "''2026-11-03''"] obtain p where
    p: "fst (generate_playlist demo_arc False True ''2026-11-03'' demo_state) = Inr p"
       "pl_tracks p = [demo_track_a, demo_track_b]" by blast
  from generate_playlist_transition_count[OF p(1)] p show ?thesis by auto
qed

end
